theory Spec2Isabelle
  imports Main "HOL-Library.AList" "HOL-Library.Multiset"
begin

section \<open>Errors\<close>

text \<open>
  A Go \<open>error\<close> value that may be \<open>nil\<close> is an \<open>error option\<close>. An error carries the
  status reason the API machinery reads from it (\<open>StatusReasonUnknown\<close> for every error
  that is not an API status, such as one built by \<open>fmt.Errorf\<close>) and its message.
  \<open>utilerrors.NewAggregate\<close> wraps a non-empty list of errors.
\<close>

datatype StatusReason =
    StatusReasonUnknown
  | StatusReasonNotFound
  | StatusReasonAlreadyExists
  | StatusReasonConflict
  | StatusReasonGone
  | StatusReasonInvalid

datatype error = Err StatusReason string | Aggregate "error list"

fun ReasonForError :: "error \<Rightarrow> StatusReason" where
  "ReasonForError (Err r m) = r"
| "ReasonForError (Aggregate es) = StatusReasonUnknown"

definition IsNotFound :: "error option \<Rightarrow> bool" where
  "IsNotFound err = (case err of None \<Rightarrow> False | Some e \<Rightarrow> ReasonForError e = StatusReasonNotFound)"

definition IsGone :: "error option \<Rightarrow> bool" where
  "IsGone err = (case err of None \<Rightarrow> False | Some e \<Rightarrow> ReasonForError e = StatusReasonGone)"

definition IsInvalid :: "error option \<Rightarrow> bool" where
  "IsInvalid err = (case err of None \<Rightarrow> False | Some e \<Rightarrow> ReasonForError e = StatusReasonInvalid)"

fun join_strings :: "string \<Rightarrow> string list \<Rightarrow> string" where
  "join_strings sep [] = []"
| "join_strings sep [x] = x"
| "join_strings sep (x # y # ys) = x @ sep @ join_strings sep (y # ys)"

text \<open>\<open>err.Error()\<close>: the message; an aggregate of one error prints as that error, a larger
  one as the bracketed list of its members' messages.\<close>

fun Error :: "error \<Rightarrow> string" where
  "Error (Err r m) = m"
| "Error (Aggregate es) =
     (case es of
        [] \<Rightarrow> []
      | [e] \<Rightarrow> Error e
      | _ \<Rightarrow> ''['' @ join_strings '', '' (map Error es) @ '']'')"

definition NewAggregate :: "error list \<Rightarrow> error option" where
  "NewAggregate errlist = (if errlist = [] then None else Some (Aggregate errlist))"

definition Errorf :: "string \<Rightarrow> error" where
  "Errorf m = Err StatusReasonUnknown m"

text \<open>The errors an aggregate result holds: none for \<open>nil\<close>.\<close>

fun Errors :: "error option \<Rightarrow> error list" where
  "Errors None = []"
| "Errors (Some (Aggregate es)) = es"
| "Errors (Some e) = [e]"

section \<open>Control-plane deletion\<close>

text \<open>
  \<open>r.Manager.GetRecorder(controllerName).Event(r.Instance, type, reason, message)\<close>
  appends an event to the events recorded for the instance. \<open>prune\<close> is a method of the
  reconciler declared elsewhere: it is a parameter, working on the whole reconciler.
\<close>

datatype event = Event (eventtype: string) (reason: string) (message: string)

record 'r ControlPlaneReconciler =
  Recorded :: "event list"
  Instance :: 'r

definition RecordEvent :: "event \<Rightarrow> 'r ControlPlaneReconciler \<Rightarrow> 'r ControlPlaneReconciler" where
  "RecordEvent ev r = r\<lparr>Recorded := Recorded r @ [ev]\<rparr>"

definition ServiceMeshDeleting :: event where
  "ServiceMeshDeleting = Event ''Normal'' ''ServiceMeshDeleting'' ''Deleting service mesh''"

definition ServiceMeshDeleted :: "error option \<Rightarrow> event" where
  "ServiceMeshDeleted err =
     (case err of
        None \<Rightarrow> Event ''Normal'' ''ServiceMeshDeleted'' ''Successfully deleted service mesh components''
      | Some e \<Rightarrow> Event ''Warning'' ''ServiceMeshDeleted''
                   (''Error occurred during service mesh deletion: '' @ Error e))"

text \<open>The deferred function runs after the operand of \<open>return\<close> is evaluated and reads the
  same variable \<open>err\<close>.\<close>

definition ControlPlaneReconciler_Delete ::
  "(int \<Rightarrow> 'r ControlPlaneReconciler \<Rightarrow> error option \<times> 'r ControlPlaneReconciler)
   \<Rightarrow> 'r ControlPlaneReconciler \<Rightarrow> error option \<times> 'r ControlPlaneReconciler" where
  "ControlPlaneReconciler_Delete prune r =
     (let r1 = RecordEvent ServiceMeshDeleting r;
          (err, r2) = prune (- 1) r1;
          r3 = RecordEvent (ServiceMeshDeleted err) r2
      in (err, r3))"

text \<open>A prune used to run the deletion on concrete inputs: it removes the components at or
  above the given priority and fails when asked to.\<close>

definition prune_stub :: "error option \<Rightarrow> int \<Rightarrow> nat ControlPlaneReconciler
    \<Rightarrow> error option \<times> nat ControlPlaneReconciler" where
  "prune_stub result prio r = (result, r\<lparr>Instance := 0\<rparr>)"

section \<open>Objects, the cluster client and the calls made on it\<close>

text \<open>
  A \<open>runtime.Object\<close> as the operator handles it (an \<open>Unstructured\<close>, a \<open>NetworkPolicy\<close>,
  a \<open>ClusterRole\<close>, a \<open>Namespace\<close>): its group, version and kind, its object metadata, the
  rest of its payload as opaque text, and what \<open>ToList\<close> makes of it (an error, or its
  items). A Go \<open>map[string]string\<close> is an association list read with \<open>map_of\<close>.
\<close>

record GroupVersionKind =
  Group :: string
  Version :: string
  Kind :: string

record ObjectMeta =
  Name :: string
  Namespace :: string
  Labels :: "(string \<times> string) list"
  Annotations :: "(string \<times> string) list"
  ResourceVersion :: string

datatype object = Object
  (GetGroupVersionKind: GroupVersionKind)
  (GetObjectMeta: ObjectMeta)
  (Payload: string)
  (ToListError: "error option")
  (Items: "object list")

definition GetKind :: "object \<Rightarrow> string" where
  "GetKind obj = Kind (GetGroupVersionKind obj)"

definition GetName :: "object \<Rightarrow> string" where
  "GetName obj = Name (GetObjectMeta obj)"

definition GetNamespace :: "object \<Rightarrow> string" where
  "GetNamespace obj = Namespace (GetObjectMeta obj)"

definition GetLabels :: "object \<Rightarrow> (string \<times> string) list" where
  "GetLabels obj = Labels (GetObjectMeta obj)"

definition GetAnnotations :: "object \<Rightarrow> (string \<times> string) list" where
  "GetAnnotations obj = Annotations (GetObjectMeta obj)"

definition GetResourceVersion :: "object \<Rightarrow> string" where
  "GetResourceVersion obj = ResourceVersion (GetObjectMeta obj)"

fun SetObjectMeta :: "object \<Rightarrow> ObjectMeta \<Rightarrow> object" where
  "SetObjectMeta (Object gvk m p le its) m' = Object gvk m' p le its"

definition SetResourceVersion :: "object \<Rightarrow> string \<Rightarrow> object" where
  "SetResourceVersion obj v = SetObjectMeta obj ((GetObjectMeta obj)\<lparr>ResourceVersion := v\<rparr>)"

text \<open>\<open>GroupKind().String()\<close>: the kind alone when the group is empty.\<close>

definition GroupKindString :: "GroupVersionKind \<Rightarrow> string" where
  "GroupKindString gvk = (if Group gvk = [] then Kind gvk else Kind gvk @ ''.'' @ Group gvk)"

text \<open>
  Modelled from the spec: the label and annotation helpers and keys of package
  \<open>common\<close> (\<open>SetLabel\<close>, \<open>SetLabels\<close>, \<open>GetAnnotation\<close>, \<open>OwnerKey\<close>, \<open>MemberOfKey\<close>,
  \<open>InternalKey\<close> and the application label keys) are declared outside the files at hand.
  The spec names the keys owner-key, member-of-key, internal-key, app-name, app-instance,
  app-version, app-component, app-part-of and app-managed-by; the helpers store and read
  one entry of the object's label or annotation map.
\<close>

definition OwnerKey :: string where "OwnerKey = ''owner-key''"
definition MemberOfKey :: string where "MemberOfKey = ''member-of-key''"
definition InternalKey :: string where "InternalKey = ''internal-key''"
definition KubernetesAppNameKey :: string where "KubernetesAppNameKey = ''app-name''"
definition KubernetesAppInstanceKey :: string where "KubernetesAppInstanceKey = ''app-instance''"
definition KubernetesAppVersionKey :: string where "KubernetesAppVersionKey = ''app-version''"
definition KubernetesAppComponentKey :: string where "KubernetesAppComponentKey = ''app-component''"
definition KubernetesAppPartOfKey :: string where "KubernetesAppPartOfKey = ''app-part-of''"
definition KubernetesAppManagedByKey :: string where "KubernetesAppManagedByKey = ''app-managed-by''"

definition SetLabel :: "object \<Rightarrow> string \<Rightarrow> string \<Rightarrow> object" where
  "SetLabel obj k v =
     SetObjectMeta obj ((GetObjectMeta obj)\<lparr>Labels := AList.update k v (GetLabels obj)\<rparr>)"

fun SetLabels :: "object \<Rightarrow> (string \<times> string) list \<Rightarrow> object" where
  "SetLabels obj [] = obj"
| "SetLabels obj ((k, v) # kvs) = SetLabels (SetLabel obj k v) kvs"

definition GetAnnotation :: "object \<Rightarrow> string \<Rightarrow> string option" where
  "GetAnnotation obj k = map_of (GetAnnotations obj) k"

text \<open>
  \<open>client.Client\<close> is an interface: the model takes any implementation, as functions
  on a cluster state \<open>'s\<close>. \<open>Get\<close> fills the receiver or fails; \<open>Create\<close> and \<open>Update\<close>
  write the server's answer back into the object they are given.
\<close>

datatype DeletionPropagation =
  DeletePropagationOrphan | DeletePropagationBackground | DeletePropagationForeground

type_synonym ObjectKey = "string \<times> string"

record ListOptions =
  MatchingLabels :: "(string \<times> string) list"
  InNamespace :: string

record 's Client =
  Get :: "'s \<Rightarrow> ObjectKey \<Rightarrow> object \<Rightarrow> error + object"
  ListObjects :: "'s \<Rightarrow> ListOptions \<Rightarrow> GroupVersionKind \<Rightarrow> error + object list"
  Create :: "'s \<Rightarrow> object \<Rightarrow> error option \<times> object \<times> 's"
  Update :: "'s \<Rightarrow> object \<Rightarrow> error option \<times> object \<times> 's"
  Delete :: "'s \<Rightarrow> object \<Rightarrow> DeletionPropagation option \<Rightarrow> error option \<times> 's"

text \<open>The world a reconciliation runs in: the cluster, and the calls made on it so far,
  in order, each with the error it returned (\<open>None\<close> for nil).\<close>

datatype call =
    CallGet ObjectKey object "error option"
  | CallList ListOptions GroupVersionKind "error option"
  | CallCreate object "error option"
  | CallUpdate object "error option"
  | CallDelete object "DeletionPropagation option" "error option"
  | CallPatchApply object object "error option"

record 's world =
  cluster :: 's
  calls :: "call list"

definition errorOf :: "error + 'a \<Rightarrow> error option" where
  "errorOf res = (case res of Inl err \<Rightarrow> Some err | Inr x \<Rightarrow> None)"

definition Client_Get :: "'s Client \<Rightarrow> ObjectKey \<Rightarrow> object \<Rightarrow> 's world
    \<Rightarrow> (error + object) \<times> 's world" where
  "Client_Get cl key receiver w =
     (let res = Get cl (cluster w) key receiver
      in (res, w\<lparr>calls := calls w @ [CallGet key receiver (errorOf res)]\<rparr>))"

definition Client_List :: "'s Client \<Rightarrow> ListOptions \<Rightarrow> GroupVersionKind \<Rightarrow> 's world
    \<Rightarrow> (error + object list) \<times> 's world" where
  "Client_List cl opts gvk w =
     (let res = ListObjects cl (cluster w) opts gvk
      in (res, w\<lparr>calls := calls w @ [CallList opts gvk (errorOf res)]\<rparr>))"

definition Client_Create :: "'s Client \<Rightarrow> object \<Rightarrow> 's world
    \<Rightarrow> error option \<times> object \<times> 's world" where
  "Client_Create cl obj w =
     (let (err, obj', s') = Create cl (cluster w) obj
      in (err, obj', \<lparr>cluster = s', calls = calls w @ [CallCreate obj err]\<rparr>))"

definition Client_Update :: "'s Client \<Rightarrow> object \<Rightarrow> 's world
    \<Rightarrow> error option \<times> object \<times> 's world" where
  "Client_Update cl obj w =
     (let (err, obj', s') = Update cl (cluster w) obj
      in (err, obj', \<lparr>cluster = s', calls = calls w @ [CallUpdate obj err]\<rparr>))"

definition Client_Delete :: "'s Client \<Rightarrow> object \<Rightarrow> DeletionPropagation option \<Rightarrow> 's world
    \<Rightarrow> error option \<times> 's world" where
  "Client_Delete cl obj policy w =
     (let (err, s') = Delete cl (cluster w) obj policy
      in (err, \<lparr>cluster = s', calls = calls w @ [CallDelete obj policy err]\<rparr>))"

text \<open>What a list of calls holds: the objects created, the names deleted, the errors the
  creations and the deletions returned.\<close>

fun createdObjects :: "call list \<Rightarrow> object list" where
  "createdObjects [] = []"
| "createdObjects (CallCreate obj None # cs) = obj # createdObjects cs"
| "createdObjects (c # cs) = createdObjects cs"

fun deleteCalls :: "call list \<Rightarrow> (object \<times> DeletionPropagation option) list" where
  "deleteCalls [] = []"
| "deleteCalls (CallDelete obj policy err # cs) = (obj, policy) # deleteCalls cs"
| "deleteCalls (c # cs) = deleteCalls cs"

fun createErrors :: "call list \<Rightarrow> error list" where
  "createErrors [] = []"
| "createErrors (CallCreate obj (Some e) # cs) = e # createErrors cs"
| "createErrors (c # cs) = createErrors cs"

fun deleteErrors :: "call list \<Rightarrow> error list" where
  "deleteErrors [] = []"
| "deleteErrors (CallDelete obj policy (Some e) # cs) = e # deleteErrors cs"
| "deleteErrors (c # cs) = deleteErrors cs"

fun updateCalls :: "call list \<Rightarrow> object list" where
  "updateCalls [] = []"
| "updateCalls (CallUpdate obj err # cs) = obj # updateCalls cs"
| "updateCalls (c # cs) = updateCalls cs"

fun writtenNames :: "call list \<Rightarrow> string list" where
  "writtenNames [] = []"
| "writtenNames (CallGet key receiver err # cs) = writtenNames cs"
| "writtenNames (CallList opts gvk err # cs) = writtenNames cs"
| "writtenNames (CallCreate obj err # cs) = GetName obj # writtenNames cs"
| "writtenNames (CallUpdate obj err # cs) = GetName obj # writtenNames cs"
| "writtenNames (CallDelete obj policy err # cs) = GetName obj # writtenNames cs"
| "writtenNames (CallPatchApply receiver obj err # cs) = GetName obj # writtenNames cs"

text \<open>A call without its result.\<close>

fun eraseResult :: "call \<Rightarrow> call" where
  "eraseResult (CallGet key receiver err) = CallGet key receiver None"
| "eraseResult (CallList opts gvk err) = CallList opts gvk None"
| "eraseResult (CallCreate obj err) = CallCreate obj None"
| "eraseResult (CallUpdate obj err) = CallUpdate obj None"
| "eraseResult (CallDelete obj policy err) = CallDelete obj policy None"
| "eraseResult (CallPatchApply receiver obj err) = CallPatchApply receiver obj None"

text \<open>
  An in-memory cluster, used to run the operations on concrete inputs: objects are
  identified by group, version, kind, namespace and name; creating an object that exists
  and reading, updating or deleting one that does not fail. Its \<open>Create\<close> and \<open>Delete\<close>
  can be made to fail with a given error.
\<close>

definition sameObject :: "object \<Rightarrow> object \<Rightarrow> bool" where
  "sameObject a b = (GetGroupVersionKind a = GetGroupVersionKind b
      \<and> GetNamespace a = GetNamespace b \<and> GetName a = GetName b)"

definition fakeGet :: "object list \<Rightarrow> ObjectKey \<Rightarrow> object \<Rightarrow> error + object" where
  "fakeGet s key receiver =
     (case filter (\<lambda>obj. GetGroupVersionKind obj = GetGroupVersionKind receiver
                        \<and> (GetNamespace obj, GetName obj) = key) s of
        [] \<Rightarrow> Inl (Err StatusReasonNotFound ''not found'')
      | obj # rest \<Rightarrow> Inr obj)"

definition fakeList :: "object list \<Rightarrow> ListOptions \<Rightarrow> GroupVersionKind \<Rightarrow> error + object list" where
  "fakeList s opts gvk =
     Inr (filter (\<lambda>obj. GetGroupVersionKind obj = gvk \<and> GetNamespace obj = InNamespace opts
                     \<and> list_all (\<lambda>(k, v). map_of (GetLabels obj) k = Some v) (MatchingLabels opts)) s)"

definition fakeCreate :: "error option \<Rightarrow> object list \<Rightarrow> object \<Rightarrow> error option \<times> object \<times> object list" where
  "fakeCreate failure s obj =
     (case failure of
        Some e \<Rightarrow> (Some e, obj, s)
      | None \<Rightarrow>
          if list_ex (sameObject obj) s then (Some (Err StatusReasonAlreadyExists ''already exists''), obj, s)
          else (None, SetResourceVersion obj ''1'', s @ [SetResourceVersion obj ''1'']))"

definition fakeUpdate :: "object list \<Rightarrow> object \<Rightarrow> error option \<times> object \<times> object list" where
  "fakeUpdate s obj =
     (if list_ex (sameObject obj) s
      then (None, obj, map (\<lambda>old. if sameObject obj old then obj else old) s)
      else (Some (Err StatusReasonNotFound ''not found''), obj, s))"

definition fakeDelete :: "error option \<Rightarrow> object list \<Rightarrow> object \<Rightarrow> DeletionPropagation option
    \<Rightarrow> error option \<times> object list" where
  "fakeDelete failure s obj policy =
     (case failure of
        Some e \<Rightarrow> (Some e, s)
      | None \<Rightarrow>
          if list_ex (sameObject obj) s then (None, filter (\<lambda>old. \<not> sameObject obj old) s)
          else (Some (Err StatusReasonNotFound ''not found''), s))"

definition fakeClient :: "error option \<Rightarrow> error option \<Rightarrow> object list Client" where
  "fakeClient createFailure deleteFailure =
     \<lparr>Get = fakeGet, ListObjects = fakeList, Create = fakeCreate createFailure,
      Update = fakeUpdate, Delete = fakeDelete deleteFailure\<rparr>"

text \<open>
  \<open>common.ControllerResources\<close> is embedded in the manifest processor and in the
  network-policy strategy; of its fields the client is the one both use. The records
  below extend it as the Go structs embed it.
\<close>

record 's ControllerResources =
  Client :: "'s Client"

section \<open>The network-policy strategy of the member roll\<close>

text \<open>
  \<open>sets.String\<close> is a list without duplicates. Go ranges over such a set in no fixed
  order; the model ranges in list order, and the theorems below state only what does
  not depend on that order.
\<close>

definition NewString :: "string list" where
  "NewString = []"

definition Has :: "string list \<Rightarrow> string \<Rightarrow> bool" where
  "Has s x = (x \<in> set s)"

definition Insert :: "string list \<Rightarrow> string \<Rightarrow> string list" where
  "Insert s x = (if x \<in> set s then s else s @ [x])"

definition Union :: "string list \<Rightarrow> string list \<Rightarrow> string list" where
  "Union s1 s2 = foldl Insert s1 s2"

definition Difference :: "string list \<Rightarrow> string list \<Rightarrow> string list" where
  "Difference s1 s2 = filter (\<lambda>x. \<not> Has s2 x) s1"

text \<open>
  Modelled from the spec: \<open>nameSet\<close> is declared in a file of package \<open>memberroll\<close> that is
  not at hand; the spec calls its result the set of names of the objects that currently
  exist.
\<close>

definition nameSet :: "object list \<Rightarrow> string list" where
  "nameSet list = foldl (\<lambda>s obj. Insert s (GetName obj)) NewString list"

definition copyMap :: "(string \<times> string) list \<Rightarrow> (string \<times> string) list" where
  "copyMap m = foldl (\<lambda>out (key, val). AList.update key val out) [] m"

definition NetworkPolicyGVK :: GroupVersionKind where
  "NetworkPolicyGVK = \<lparr>Group = ''networking.k8s.io'', Version = ''v1'', Kind = ''NetworkPolicy''\<rparr>"

record 's networkPolicyStrategy = "'s ControllerResources" +
  meshNamespace :: string
  requiredNetworkPolicies :: "string list"
  networkPoliciesList :: "object list"

definition newNetworkPolicyStrategy :: "'s Client \<Rightarrow> string \<Rightarrow> 's world
    \<Rightarrow> (error + 's networkPolicyStrategy) \<times> 's world" where
  "newNetworkPolicyStrategy cl meshNamespace' w =
     (let labelSelector = [(OwnerKey, meshNamespace')];
          (res, w1) = Client_List cl
             \<lparr>MatchingLabels = labelSelector, InNamespace = meshNamespace'\<rparr> NetworkPolicyGVK w
      in case res of
           Inl err \<Rightarrow> (Inl err, w1)
         | Inr nps \<Rightarrow>
             (Inr \<lparr>Client = cl, meshNamespace = meshNamespace',
                   requiredNetworkPolicies =
                     foldl (\<lambda>req np. if GetAnnotation np InternalKey \<noteq> None then req
                                      else Insert req (GetName np)) NewString nps,
                   networkPoliciesList = nps\<rparr>, w1))"

text \<open>The copy of a mesh network policy that is created in the member namespace.\<close>

definition memberNetworkPolicy :: "string \<Rightarrow> string \<Rightarrow> object \<Rightarrow> object" where
  "memberNetworkPolicy meshNamespace' namespace' meshNetworkPolicy =
     SetLabel
       (SetObjectMeta meshNetworkPolicy
          \<lparr>Name = GetName meshNetworkPolicy, Namespace = namespace',
           Labels = copyMap (GetLabels meshNetworkPolicy),
           Annotations = copyMap (GetAnnotations meshNetworkPolicy),
           ResourceVersion = []\<rparr>)
       MemberOfKey meshNamespace'"

text \<open>The first loop of \<open>reconcileNamespaceInMesh\<close> (add required network policies): it
  carries the errors and the set of added names.\<close>

fun addRequiredNetworkPolicies :: "'s networkPolicyStrategy \<Rightarrow> string \<Rightarrow> string list
    \<Rightarrow> object list \<Rightarrow> error list \<times> string list \<times> 's world
    \<Rightarrow> error list \<times> string list \<times> 's world" where
  "addRequiredNetworkPolicies s namespace' existing [] acc = acc"
| "addRequiredNetworkPolicies s namespace' existing (meshNetworkPolicy # rest)
       (allErrors, added, w) =
     (let networkPolicyName = GetName meshNetworkPolicy
      in if \<not> Has (requiredNetworkPolicies s) networkPolicyName
         then addRequiredNetworkPolicies s namespace' existing rest (allErrors, added, w)
         else if \<not> Has existing networkPolicyName
         then (let networkPolicy =
                     memberNetworkPolicy (meshNamespace s) namespace' meshNetworkPolicy;
                   (err, created, w1) = Client_Create (Client s) networkPolicy w
               in case err of
                    None \<Rightarrow> addRequiredNetworkPolicies s namespace' existing rest
                             (allErrors, Insert added networkPolicyName, w1)
                  | Some e \<Rightarrow> addRequiredNetworkPolicies s namespace' existing rest
                             (allErrors @ [e], added, w1))
         else addRequiredNetworkPolicies s namespace' existing rest (allErrors, added, w))"

text \<open>The object a deletion by name is made with.\<close>

definition obsoleteNetworkPolicy :: "string \<Rightarrow> string \<Rightarrow> object" where
  "obsoleteNetworkPolicy namespace' networkPolicyName =
     Object NetworkPolicyGVK
       \<lparr>Name = networkPolicyName, Namespace = namespace', Labels = [], Annotations = [],
        ResourceVersion = []\<rparr> [] None []"

text \<open>The second loop (delete obsolete network policies).\<close>

fun deleteObsoleteNetworkPolicies :: "'s networkPolicyStrategy \<Rightarrow> string \<Rightarrow> string list
    \<Rightarrow> error list \<times> 's world \<Rightarrow> error list \<times> 's world" where
  "deleteObsoleteNetworkPolicies s namespace' [] acc = acc"
| "deleteObsoleteNetworkPolicies s namespace' (networkPolicyName # rest) (allErrors, w) =
     (let (err, w1) = Client_Delete (Client s)
                        (obsoleteNetworkPolicy namespace' networkPolicyName)
                        (Some DeletePropagationForeground) w
      in deleteObsoleteNetworkPolicies s namespace' rest
           (case err of
              None \<Rightarrow> allErrors
            | Some e \<Rightarrow> if \<not> (IsNotFound err \<or> IsGone err) then allErrors @ [e]
                        else allErrors,
            w1))"

definition reconcileNamespaceInMesh :: "'s networkPolicyStrategy \<Rightarrow> string \<Rightarrow> 's world
    \<Rightarrow> error option \<times> 's world" where
  "reconcileNamespaceInMesh s namespace' w =
     (let labelSelector = [(MemberOfKey, meshNamespace s)];
          (res, w1) = Client_List (Client s)
             \<lparr>MatchingLabels = labelSelector, InNamespace = namespace'\<rparr> NetworkPolicyGVK w
      in case res of
           Inl err \<Rightarrow> (Some err, w1)
         | Inr namespaceNetworkPolicies \<Rightarrow>
             (let existingNetworkPolicies = nameSet namespaceNetworkPolicies;
                  (allErrors, addedNetworkPolicies, w2) =
                     addRequiredNetworkPolicies s namespace' existingNetworkPolicies
                       (networkPoliciesList s) ([], NewString, w1);
                  existingNetworkPolicies' = Union existingNetworkPolicies addedNetworkPolicies;
                  (allErrors', w3) =
                     deleteObsoleteNetworkPolicies s namespace'
                       (Difference existingNetworkPolicies' (requiredNetworkPolicies s))
                       (allErrors, w2)
              in (NewAggregate allErrors', w3)))"

section \<open>The manifest processor\<close>

text \<open>
  Functions of other libraries the processor calls, taken as they come:
  \<open>releaseutil.SplitManifests\<close> (the documents of a manifest, in the order they are
  ranged over), \<open>yaml.YAMLToJSON\<close>, the decoding of JSON into an \<open>Unstructured\<close>, and
  \<open>kubectl.CreateApplyAnnotation\<close>, whose error is only logged: it is the function from
  the object before the call to the object after it.
\<close>

record externals =
  SplitManifests :: "string \<Rightarrow> string list"
  YAMLToJSON :: "string \<Rightarrow> error + string"
  Decode :: "string \<Rightarrow> error + object"
  CreateApplyAnnotation :: "object \<Rightarrow> object"

text \<open>
  A \<open>Patch\<close> is what its \<open>Apply\<close> does: given the desired object and the cluster, an
  error or nil, the object and the cluster afterwards. \<open>PatchFactory.CreatePatch\<close>
  returns a patch or nil, an error or nil, and the desired object as it leaves it. The
  two hooks work on the object and the cluster.
\<close>

type_synonym 's Patch = "object \<Rightarrow> 's \<Rightarrow> error option \<times> object \<times> 's"

record 's ManifestProcessor = "'s ControllerResources" +
  PatchFactory :: "object \<Rightarrow> object \<Rightarrow> 's Patch option \<times> error option \<times> object"
  preprocessObject :: "object \<Rightarrow> 's \<Rightarrow> error option \<times> object \<times> 's"
  processNewObject :: "object \<Rightarrow> 's \<Rightarrow> error option \<times> object \<times> 's"
  appInstance :: string
  appVersion :: string
  owner :: string

record manifest =
  ManifestName :: string
  ManifestContent :: string

definition HasSuffix :: "string \<Rightarrow> string \<Rightarrow> bool" where
  "HasSuffix s suffix' =
     (length suffix' \<le> length s \<and> drop (length s - length suffix') s = suffix')"

definition addMetadata :: "'s ManifestProcessor \<Rightarrow> object \<Rightarrow> string \<Rightarrow> object" where
  "addMetadata p obj component =
     SetLabels obj
       [(KubernetesAppNameKey, component),
        (KubernetesAppInstanceKey, appInstance p),
        (KubernetesAppVersionKey, appVersion p),
        (KubernetesAppComponentKey, component),
        (KubernetesAppPartOfKey, ''istio''),
        (KubernetesAppManagedByKey, ''maistra-istio-operator''),
        (OwnerKey, owner p)]"

text \<open>
  Modelled from the spec: \<open>v1.NewResourceKey\<close> and \<open>ResourceKey.ToUnstructured\<close> are
  declared outside the files at hand; the spec calls the key the derived identity (group,
  version, kind, namespace and name) used to look up the object's current cluster state.
  The receiver is an empty object of that identity.
\<close>

definition ToUnstructured :: "object \<Rightarrow> object" where
  "ToUnstructured obj =
     Object (GetGroupVersionKind obj)
       \<lparr>Name = GetName obj, Namespace = GetNamespace obj, Labels = [], Annotations = [],
        ResourceVersion = []\<rparr> [] None []"

text \<open>\<open>client.ObjectKeyFromObject\<close> fails only for a value that has no object metadata;
  every \<open>object\<close> has.\<close>

definition ObjectKeyFromObject :: "object \<Rightarrow> ObjectKey" where
  "ObjectKeyFromObject obj = (GetNamespace obj, GetName obj)"

definition Patch_Apply :: "'s Patch \<Rightarrow> object \<Rightarrow> object \<Rightarrow> 's world
    \<Rightarrow> error option \<times> object \<times> 's world" where
  "Patch_Apply patch receiver obj w =
     (let (err, obj', s') = patch obj (cluster w)
      in (err, obj', \<lparr>cluster = s', calls = calls w @ [CallPatchApply receiver obj err]\<rparr>))"

text \<open>The fallback of \<open>processObject\<close> when applying the patch was rejected as invalid:
  \<open>err\<close> is the error of the patch, which only a successful recreation replaces by nil.\<close>

definition deleteAndRecreate :: "'s ManifestProcessor \<Rightarrow> error option \<Rightarrow> object \<Rightarrow> 's world
    \<Rightarrow> error option \<times> 's world" where
  "deleteAndRecreate p err obj w =
     (let (deleteErr, w1) = Client_Delete (Client p) obj (Some DeletePropagationBackground) w
      in if deleteErr = None
         then (let obj1 = SetResourceVersion obj [];
                   (createErr, obj2, w2) = Client_Create (Client p) obj1 w1
               in if createErr = None then (None, w2) else (err, w2))
         else (err, w1))"

text \<open>\<open>processObject\<close> for an object whose kind is not \<open>List\<close>.\<close>

definition processResource :: "'s ManifestProcessor \<Rightarrow> externals \<Rightarrow> object \<Rightarrow> string
    \<Rightarrow> 's world \<Rightarrow> error option \<times> 's world" where
  "processResource p ext obj component w =
     (let key = obj;
          obj1 = addMetadata p obj component;
          (err, obj2, s1) = preprocessObject p obj1 (cluster w);
          w1 = w\<lparr>cluster := s1\<rparr>
      in case err of
           Some e \<Rightarrow> (Some e, w1)
         | None \<Rightarrow>
             (let obj3 = CreateApplyAnnotation ext obj2;
                  receiver = ToUnstructured key;
                  objectKey = ObjectKeyFromObject receiver;
                  (res, w2) = Client_Get (Client p) objectKey receiver w1
              in case res of
                   Inl getErr \<Rightarrow>
                     if IsNotFound (Some getErr)
                     then (let (createErr, obj4, w3) = Client_Create (Client p) obj3 w2
                           in case createErr of
                                None \<Rightarrow>
                                  (let (hookErr, obj5, s4) = processNewObject p obj4 (cluster w3)
                                   in (None, w3\<lparr>cluster := s4\<rparr>))
                              | Some e \<Rightarrow> (Some e, w3))
                     else (Some getErr, w2)
                 | Inr live \<Rightarrow>
                     (let (patch, patchErr, obj4) = PatchFactory p live obj3
                      in case (patchErr, patch) of
                           (None, Some patch') \<Rightarrow>
                             (let (applyErr, obj5, w3) = Patch_Apply patch' live obj4 w2
                              in if IsInvalid applyErr
                                 then deleteAndRecreate p applyErr obj5 w3
                                 else (applyErr, w3))
                         | _ \<Rightarrow> (patchErr, w2))))"

fun processObject :: "'s ManifestProcessor \<Rightarrow> externals \<Rightarrow> object \<Rightarrow> string \<Rightarrow> 's world
      \<Rightarrow> error option \<times> 's world"
  and processItems :: "'s ManifestProcessor \<Rightarrow> externals \<Rightarrow> object list \<Rightarrow> string \<Rightarrow> 's world
      \<Rightarrow> error list \<times> 's world" where
  "processObject p ext (Object gvk m payload toListErr its) component w =
     (if Kind gvk = ''List''
      then (case toListErr of
              Some err \<Rightarrow> (Some err, w)
            | None \<Rightarrow>
                (let (allErrors, w') = processItems p ext its component w
                 in (NewAggregate allErrors, w')))
      else processResource p ext (Object gvk m payload toListErr its) component w)"
| "processItems p ext [] component w = ([], w)"
| "processItems p ext (item # rest) component w =
     (let (err, w1) = processObject p ext item component w;
          (allErrors, w2) = processItems p ext rest component w1
      in (case err of None \<Rightarrow> allErrors | Some e \<Rightarrow> e # allErrors, w2))"

text \<open>The inner loop of \<open>ProcessManifests\<close>, over the documents of one manifest.\<close>

fun processDocuments :: "'s ManifestProcessor \<Rightarrow> externals \<Rightarrow> string \<Rightarrow> string list
    \<Rightarrow> error list \<times> 's world \<Rightarrow> error list \<times> 's world" where
  "processDocuments p ext component [] acc = acc"
| "processDocuments p ext component (raw # rest) (allErrors, w) =
     (case YAMLToJSON ext raw of
        Inl err \<Rightarrow> processDocuments p ext component rest (allErrors @ [err], w)
      | Inr rawJSON \<Rightarrow>
          (case Decode ext rawJSON of
             Inl err \<Rightarrow> processDocuments p ext component rest (allErrors @ [err], w)
           | Inr obj \<Rightarrow>
               (let (err, w1) = processObject p ext obj component w
                in processDocuments p ext component rest
                     (case err of None \<Rightarrow> allErrors | Some e \<Rightarrow> allErrors @ [e], w1))))"

text \<open>The outer loop, over the manifests.\<close>

fun processManifestList :: "'s ManifestProcessor \<Rightarrow> externals \<Rightarrow> string \<Rightarrow> manifest list
    \<Rightarrow> error list \<times> 's world \<Rightarrow> error list \<times> 's world" where
  "processManifestList p ext component [] acc = acc"
| "processManifestList p ext component (man # rest) acc =
     (if \<not> HasSuffix (ManifestName man) ''.yaml''
      then processManifestList p ext component rest acc
      else processManifestList p ext component rest
             (processDocuments p ext component (SplitManifests ext (ManifestContent man)) acc))"

definition ProcessManifests :: "'s ManifestProcessor \<Rightarrow> externals \<Rightarrow> manifest list \<Rightarrow> string
    \<Rightarrow> 's world \<Rightarrow> error option \<times> 's world" where
  "ProcessManifests p ext manifests component w =
     (let (allErrors, w') = processManifestList p ext component manifests ([], w)
      in (NewAggregate allErrors, w'))"

section \<open>The CRD installer\<close>

text \<open>
  What the installer takes from outside: semantic versions (\<open>semver.NewVersion\<close> and
  \<open>LessThan\<close>, over any type \<open>'v\<close> of versions), the file system (\<open>os.Stat\<close> as an error
  or whether the path is a directory, \<open>os.Open\<close>, reading a file, and the visits
  \<open>filepath.Walk\<close> makes below a root as long as the function it calls returns nil),
  the charts directory and \<open>path.Join\<close>, and two functions of this repository that are not in the
  files at hand: \<open>common.GetPatchedObject\<close>, and the \<open>RemoveTypeObjectFieldsFromCRDSchema\<close>
  that takes the \<open>Unstructured\<close> the installer passes to it (the one in \<open>hacks.go\<close>
  takes a typed definition).
\<close>

datatype patched = PatchedUnstructured object | PatchedOther string

record walkEntry =
  EntryPath :: string
  EntryIsDir :: bool
  EntryErr :: "error option"

record 'v crdExternals =
  NewVersion :: "string \<Rightarrow> error + 'v"
  LessThan :: "'v \<Rightarrow> 'v \<Rightarrow> bool"
  GetChartsDir :: "string \<Rightarrow> string"
  PathJoin :: "string \<Rightarrow> string \<Rightarrow> string"
  Stat :: "string \<Rightarrow> error + bool"
  WalkEntries :: "string \<Rightarrow> walkEntry list"
  OpenFile :: "string \<Rightarrow> error option"
  ReadFrom :: "string \<Rightarrow> error + string"
  GetPatchedObject :: "object \<Rightarrow> object \<Rightarrow> patched option \<times> error option"
  RemoveTypeObjectFieldsFromCRDSchema :: "object \<Rightarrow> error option \<times> object"

definition HasPrefix :: "string \<Rightarrow> string \<Rightarrow> bool" where
  "HasPrefix s prefix' = (take (length prefix') s = prefix')"

fun Contains :: "string \<Rightarrow> string \<Rightarrow> bool" where
  "Contains [] substr = (substr = [])"
| "Contains (c # cs) substr = (HasPrefix (c # cs) substr \<or> Contains cs substr)"

definition IsTypeObjectProblemInCRDSchemas :: "error option \<Rightarrow> bool" where
  "IsTypeObjectProblemInCRDSchemas err =
     (case err of
        None \<Rightarrow> False
      | Some e \<Rightarrow> Contains (Error e)
          (''must only have '' @ [CHR 0x22] @ ''properties'' @ [CHR 0x22] @ '', ''
           @ [CHR 0x22] @ ''required'' @ [CHR 0x22] @ '' or '' @ [CHR 0x22] @ ''description''
           @ [CHR 0x22] @ '' at the root if the status subresource is enabled''))"

definition getMaistraVersion :: "'v crdExternals \<Rightarrow> object \<Rightarrow> error + 'v" where
  "getMaistraVersion ext crd =
     NewVersion ext (case map_of (GetLabels crd) ''maistra-version'' of None \<Rightarrow> [] | Some v \<Rightarrow> v)"

definition getPatchedCrd :: "'v crdExternals \<Rightarrow> object \<Rightarrow> object \<Rightarrow> object option \<times> error option" where
  "getPatchedCrd ext existingCrd crd =
     (let (patchedCrd, err) = GetPatchedObject ext existingCrd crd
      in if err \<noteq> None \<or> patchedCrd = None then (None, err)
         else (case patchedCrd of
                 Some (PatchedUnstructured newUnstructured) \<Rightarrow> (Some newUnstructured, None)
               | Some (PatchedOther printed) \<Rightarrow>
                   (None, Some (Errorf (''could not decode unstructured object:'' @ [CHR 0x0A] @ printed)))
               | None \<Rightarrow> (None, err)))"

text \<open>The write of \<open>createCRD\<close>, made with \<open>Update\<close> or with \<open>Create\<close>: when the server
  rejects the schema for its \<open>type: object\<close> fields, they are removed and the write is
  made once more.\<close>

definition writeCRD :: "'v crdExternals
    \<Rightarrow> (object \<Rightarrow> 's world \<Rightarrow> error option \<times> object \<times> 's world)
    \<Rightarrow> object \<Rightarrow> 's world \<Rightarrow> error option \<times> 's world" where
  "writeCRD ext write crd w =
     (let (err, crd1, w1) = write crd w
      in if IsTypeObjectProblemInCRDSchemas err
         then (let (removeErr, crd2) = RemoveTypeObjectFieldsFromCRDSchema ext crd1
               in case removeErr of
                    Some e \<Rightarrow> (Some e, w1)
                  | None \<Rightarrow> (let (err', crd3, w2) = write crd2 w1 in (err', w2)))
         else (err, w1))"

text \<open>The receiver \<open>createCRD\<close> reads the installed definition into: an empty
  \<open>Unstructured\<close> with the kind and the name of the incoming one.\<close>

definition newExistingCrd :: "object \<Rightarrow> object" where
  "newExistingCrd crd =
     Object (GetGroupVersionKind crd)
       \<lparr>Name = GetName crd, Namespace = [], Labels = [], Annotations = [],
        ResourceVersion = []\<rparr> [] None []"

definition createCRD :: "'s Client \<Rightarrow> 'v crdExternals \<Rightarrow> object \<Rightarrow> 's world
    \<Rightarrow> error option \<times> 's world" where
  "createCRD cl ext crd w =
     (let existingCrd = newExistingCrd crd;
          (res, w1) = Client_Get cl ([], GetName crd) existingCrd w
      in case res of
           Inr existingCrd' \<Rightarrow>
             (case getMaistraVersion ext crd of
                Inl err \<Rightarrow>
                  (Some (Errorf (''Could not determine version of new CRD '' @ GetName crd
                                  @ '': '' @ Error err)), w1)
              | Inr newVersion \<Rightarrow>
                  (let existingVersion =
                         (case getMaistraVersion ext existingCrd' of
                            Inl err \<Rightarrow> None | Inr v \<Rightarrow> Some v)
                   in if (case existingVersion of
                            None \<Rightarrow> True | Some v \<Rightarrow> LessThan ext v newVersion)
                      then (case getPatchedCrd ext existingCrd' crd of
                              (patchedCrd, Some err) \<Rightarrow> (Some err, w1)
                            | (None, None) \<Rightarrow> (None, w1)
                            | (Some patchedCrd, None) \<Rightarrow> writeCRD ext (Client_Update cl) patchedCrd w1)
                      else (None, w1)))
         | Inl err \<Rightarrow>
             if IsNotFound (Some err) then writeCRD ext (Client_Create cl) crd w1
             else (Some err, w1))"

definition decodeCRD :: "externals \<Rightarrow> string \<Rightarrow> error + object option" where
  "decodeCRD ext raw =
     (case YAMLToJSON ext raw of
        Inl err \<Rightarrow> Inl err
      | Inr rawJSON \<Rightarrow>
          (case Decode ext rawJSON of
             Inl err \<Rightarrow> Inl err
           | Inr obj \<Rightarrow>
               if GroupKindString (GetGroupVersionKind obj)
                    = ''CustomResourceDefinition.apiextensions.k8s.io''
               then Inr (Some obj) else Inr None))"

text \<open>The loop of \<open>processCRDFile\<close> over the documents of the file.\<close>

fun processCRDDocuments :: "'s Client \<Rightarrow> externals \<Rightarrow> 'v crdExternals \<Rightarrow> string list
    \<Rightarrow> error list \<times> 's world \<Rightarrow> error list \<times> 's world" where
  "processCRDDocuments cl ext cext [] acc = acc"
| "processCRDDocuments cl ext cext (raw # rest) (allErrors, w) =
     (case decodeCRD ext raw of
        Inl err \<Rightarrow> processCRDDocuments cl ext cext rest (allErrors @ [err], w)
      | Inr None \<Rightarrow> processCRDDocuments cl ext cext rest (allErrors, w)
      | Inr (Some crd) \<Rightarrow>
          (let (err, w1) = createCRD cl cext crd w
           in processCRDDocuments cl ext cext rest
                (case err of None \<Rightarrow> allErrors | Some e \<Rightarrow> allErrors @ [e], w1)))"

definition processCRDFile :: "'s Client \<Rightarrow> externals \<Rightarrow> 'v crdExternals \<Rightarrow> string \<Rightarrow> 's world
    \<Rightarrow> error option \<times> 's world" where
  "processCRDFile cl ext cext fileName w =
     (case OpenFile cext fileName of
        Some err \<Rightarrow> (Some err, w)
      | None \<Rightarrow>
          (case ReadFrom cext fileName of
             Inl err \<Rightarrow> (Some err, w)
           | Inr buf \<Rightarrow>
               (let (allErrors, w') =
                      processCRDDocuments cl ext cext (SplitManifests ext buf) ([], w)
                in (NewAggregate allErrors, w'))))"

definition ClusterRoleGVK :: GroupVersionKind where
  "ClusterRoleGVK =
     \<lparr>Group = ''rbac.authorization.k8s.io'', Version = ''v1'', Kind = ''ClusterRole''\<rparr>"

definition crdRole :: object where
  "crdRole =
     Object ClusterRoleGVK
       \<lparr>Name = ''istio-admin'', Namespace = [],
        Labels = [(''rbac.authorization.k8s.io/aggregate-to-admin'', ''true'')],
        Annotations = [], ResourceVersion = []\<rparr>
       (''apiGroups: config.istio.io, networking.istio.io, authentication.istio.io, ''
        @ ''rbac.istio.io, authentication.maistra.io, rbac.maistra.io; resources: *; verbs: *'')
       None []"

definition installCRDRole :: "'s Client \<Rightarrow> 's world \<Rightarrow> error option \<times> 's world" where
  "installCRDRole cl w =
     (let (res, w1) = Client_Get cl ([], GetName crdRole) crdRole w
      in case res of
           Inr found \<Rightarrow> (None, w1)
         | Inl err \<Rightarrow>
             if IsNotFound (Some err)
             then (let (createErr, created, w2) = Client_Create cl crdRole w1 in (createErr, w2))
             else (Some err, w1))"

text \<open>The function \<open>InstallCRDs\<close> hands to \<open>filepath.Walk\<close>.\<close>

definition walkFn :: "'s Client \<Rightarrow> externals \<Rightarrow> 'v crdExternals \<Rightarrow> walkEntry \<Rightarrow> 's world
    \<Rightarrow> error option \<times> 's world" where
  "walkFn cl ext cext entry w =
     (if EntryErr entry \<noteq> None \<or> EntryIsDir entry then (EntryErr entry, w)
      else processCRDFile cl ext cext (EntryPath entry) w)"

text \<open>\<open>filepath.Walk\<close> stops at the first visit for which the function returns an error
  and returns that error. (\<open>filepath.SkipDir\<close> is not among the errors the function above
  returns.)\<close>

fun Walk :: "(walkEntry \<Rightarrow> 's world \<Rightarrow> error option \<times> 's world) \<Rightarrow> walkEntry list \<Rightarrow> 's world
    \<Rightarrow> error option \<times> 's world" where
  "Walk fn [] w = (None, w)"
| "Walk fn (entry # rest) w =
     (let (err, w1) = fn entry w
      in case err of Some e \<Rightarrow> (Some e, w1) | None \<Rightarrow> Walk fn rest w1)"

text \<open>\<open>InstallCRDs\<close>, run by one worker (the mutex it holds in between is not modelled).\<close>

definition InstallCRDs :: "'s Client \<Rightarrow> externals \<Rightarrow> 'v crdExternals \<Rightarrow> string \<Rightarrow> 's world
    \<Rightarrow> error option \<times> 's world" where
  "InstallCRDs cl ext cext version' w =
     (let crdPath = PathJoin cext (GetChartsDir cext version') ''istio-init/files''
      in case Stat cext crdPath of
           Inl err \<Rightarrow> (Some (Errorf (''Cannot locate any CRD files in '' @ crdPath)), w)
         | Inr isDir \<Rightarrow>
             if \<not> isDir then (Some (Errorf (''Cannot locate any CRD files in '' @ crdPath)), w)
             else (let (err, w1) = Walk (walkFn cl ext cext) (WalkEntries cext crdPath) w
                   in case err of
                        Some e \<Rightarrow> (Some e, w1)
                      | None \<Rightarrow> installCRDRole cl w1))"

section \<open>The namespace reconciler\<close>

text \<open>
  Modelled from the spec: the namespace reconciler (\<open>namespaceReconciler\<close> and its
  \<open>reconcileNamespaceInMesh\<close>) is declared in a file of package \<open>memberroll\<close> that is not at
  hand; only its test is. The spec: it fails immediately, without mutation, if the
  target namespace already carries a mesh-membership label pointing to a different mesh
  namespace; otherwise it labels the namespace as a member, copies every mesh-scoped
  template object that is not marked internal into the namespace if not already
  present, stamping the membership label, deletes any previously copied object that is
  no longer required, and invokes the networking strategy's reconcile method for the
  namespace; errors of individual creations and deletions are aggregated and do not
  stop the processing of the remaining objects. A copy is made as the network-policy
  strategy makes its copies.
\<close>

definition NamespaceGVK :: GroupVersionKind where
  "NamespaceGVK = \<lparr>Group = [], Version = ''v1'', Kind = ''Namespace''\<rparr>"

definition RoleBindingGVK :: GroupVersionKind where
  "RoleBindingGVK =
     \<lparr>Group = ''rbac.authorization.k8s.io'', Version = ''v1'', Kind = ''RoleBinding''\<rparr>"

record 's namespaceReconciler = "'s ControllerResources" +
  reconcilerMeshNamespace :: string
  meshTemplates :: "object list"
  networkingStrategy :: "string \<Rightarrow> 's world \<Rightarrow> error option \<times> 's world"

definition namespaceReceiver :: "string \<Rightarrow> object" where
  "namespaceReceiver namespace' =
     Object NamespaceGVK
       \<lparr>Name = namespace', Namespace = [], Labels = [], Annotations = [],
        ResourceVersion = []\<rparr> [] None []"

fun copyTemplates :: "'s namespaceReconciler \<Rightarrow> string \<Rightarrow> string list \<Rightarrow> object list
    \<Rightarrow> error list \<times> 's world \<Rightarrow> error list \<times> 's world" where
  "copyTemplates r namespace' existing [] acc = acc"
| "copyTemplates r namespace' existing (template # rest) (allErrors, w) =
     (if GetAnnotation template InternalKey \<noteq> None \<or> Has existing (GetName template)
      then copyTemplates r namespace' existing rest (allErrors, w)
      else (let (err, created, w1) =
                  Client_Create (Client r)
                    (memberNetworkPolicy (reconcilerMeshNamespace r) namespace' template) w
            in copyTemplates r namespace' existing rest
                 (case err of None \<Rightarrow> allErrors | Some e \<Rightarrow> allErrors @ [e], w1)))"

fun deleteObsolete :: "'s namespaceReconciler \<Rightarrow> string list \<Rightarrow> object list
    \<Rightarrow> error list \<times> 's world \<Rightarrow> error list \<times> 's world" where
  "deleteObsolete r required [] acc = acc"
| "deleteObsolete r required (copied # rest) (allErrors, w) =
     (if Has required (GetName copied) then deleteObsolete r required rest (allErrors, w)
      else (let (err, w1) = Client_Delete (Client r) copied None w
            in deleteObsolete r required rest
                 (case err of None \<Rightarrow> allErrors | Some e \<Rightarrow> allErrors @ [e], w1)))"

definition joinMesh :: "'s namespaceReconciler \<Rightarrow> string \<Rightarrow> object \<Rightarrow> 's world
    \<Rightarrow> error option \<times> 's world" where
  "joinMesh r namespace' namespaceResource w =
     (let (labelErr, labelled, w1) =
            Client_Update (Client r)
              (SetLabel namespaceResource MemberOfKey (reconcilerMeshNamespace r)) w
      in case labelErr of
           Some e \<Rightarrow> (Some e, w1)
         | None \<Rightarrow>
             (let (res, w2) = Client_List (Client r)
                    \<lparr>MatchingLabels = [(MemberOfKey, reconcilerMeshNamespace r)],
                     InNamespace = namespace'\<rparr> RoleBindingGVK w1
              in case res of
                   Inl e \<Rightarrow> (Some e, w2)
                 | Inr copies \<Rightarrow>
                     (let required = nameSet (filter (\<lambda>t. GetAnnotation t InternalKey = None)
                                                (meshTemplates r));
                          (errs1, w3) = copyTemplates r namespace' (nameSet copies)
                                          (meshTemplates r) ([], w2);
                          (errs2, w4) = deleteObsolete r required copies (errs1, w3);
                          (strategyErr, w5) = networkingStrategy r namespace' w4
                      in (NewAggregate
                            (case strategyErr of None \<Rightarrow> errs2 | Some e \<Rightarrow> errs2 @ [e]),
                          w5))))"

definition namespaceReconciler_reconcileNamespaceInMesh :: "'s namespaceReconciler \<Rightarrow> string
    \<Rightarrow> 's world \<Rightarrow> error option \<times> 's world" where
  "namespaceReconciler_reconcileNamespaceInMesh r namespace' w =
     (let (res, w1) = Client_Get (Client r) ([], namespace') (namespaceReceiver namespace') w
      in case res of
           Inl err \<Rightarrow> (Some err, w1)
         | Inr namespaceResource \<Rightarrow>
             (case map_of (GetLabels namespaceResource) MemberOfKey of
                None \<Rightarrow> joinMesh r namespace' namespaceResource w1
              | Some memberOf \<Rightarrow>
                  if memberOf \<noteq> reconcilerMeshNamespace r
                  then (Some (Errorf (''Cannot reconcile namespace '' @ namespace' @ '' in mesh ''
                                       @ reconcilerMeshNamespace r
                                       @ '', as it is already a member of '' @ memberOf)), w1)
                  else joinMesh r namespace' namespaceResource w1))"

text \<open>
  To state what \<open>ProcessManifests\<close> does with a batch: the documents it ranges over (those
  of the manifests whose name ends in \<open>.yaml\<close>, in order), what decoding makes of one
  document, the errors of the documents that do not decode and the objects of those
  that do.
\<close>

definition decodeDocument :: "externals \<Rightarrow> string \<Rightarrow> error + object" where
  "decodeDocument ext raw =
     (case YAMLToJSON ext raw of Inl err \<Rightarrow> Inl err | Inr rawJSON \<Rightarrow> Decode ext rawJSON)"

fun decodeFailures :: "externals \<Rightarrow> string list \<Rightarrow> error list" where
  "decodeFailures ext [] = []"
| "decodeFailures ext (raw # rest) =
     (case decodeDocument ext raw of
        Inl err \<Rightarrow> err # decodeFailures ext rest
      | Inr obj \<Rightarrow> decodeFailures ext rest)"

fun decodedObjects :: "externals \<Rightarrow> string list \<Rightarrow> object list" where
  "decodedObjects ext [] = []"
| "decodedObjects ext (raw # rest) =
     (case decodeDocument ext raw of
        Inl err \<Rightarrow> decodedObjects ext rest
      | Inr obj \<Rightarrow> obj # decodedObjects ext rest)"

definition documentsOf :: "externals \<Rightarrow> manifest list \<Rightarrow> string list" where
  "documentsOf ext manifests =
     concat (map (\<lambda>man. SplitManifests ext (ManifestContent man))
               (filter (\<lambda>man. HasSuffix (ManifestName man) ''.yaml'') manifests))"

text \<open>
  The same for one file of the CRD installer: the errors of the documents that do not
  decode, the definitions among those that do, and the installation of a list of
  definitions one after the other.
\<close>

fun decodeCRDFailures :: "externals \<Rightarrow> string list \<Rightarrow> error list" where
  "decodeCRDFailures ext [] = []"
| "decodeCRDFailures ext (raw # rest) =
     (case decodeCRD ext raw of
        Inl err \<Rightarrow> err # decodeCRDFailures ext rest
      | Inr crd \<Rightarrow> decodeCRDFailures ext rest)"

fun decodedCRDs :: "externals \<Rightarrow> string list \<Rightarrow> object list" where
  "decodedCRDs ext [] = []"
| "decodedCRDs ext (raw # rest) =
     (case decodeCRD ext raw of
        Inr (Some crd) \<Rightarrow> crd # decodedCRDs ext rest
      | _ \<Rightarrow> decodedCRDs ext rest)"

fun createCRDs :: "'s Client \<Rightarrow> 'v crdExternals \<Rightarrow> object list \<Rightarrow> 's world
    \<Rightarrow> error list \<times> 's world" where
  "createCRDs cl cext [] w = ([], w)"
| "createCRDs cl cext (crd # rest) w =
     (let (err, w1) = createCRD cl cext crd w;
          (errs, w2) = createCRDs cl cext rest w1
      in (case err of None \<Rightarrow> errs | Some e \<Rightarrow> e # errs, w2))"

section \<open>Example inputs\<close>

text \<open>
  A mesh namespace \<open>istio-system\<close> with two network policies for members and an internal
  one, and a member namespace \<open>app\<close> that holds a copy of one of them and an obsolete
  policy.
\<close>

definition netpol :: "string \<Rightarrow> string \<Rightarrow> (string \<times> string) list \<Rightarrow> (string \<times> string) list
    \<Rightarrow> object" where
  "netpol ns n ls ans =
     Object NetworkPolicyGVK
       \<lparr>Name = n, Namespace = ns, Labels = ls, Annotations = ans, ResourceVersion = ''1''\<rparr>
       ''spec'' None []"

definition exampleCluster :: "object list" where
  "exampleCluster =
     [netpol ''istio-system'' ''istio-mesh'' [(OwnerKey, ''istio-system'')] [],
      netpol ''istio-system'' ''istio-expose-route'' [(OwnerKey, ''istio-system'')] [],
      netpol ''istio-system'' ''istio-internal'' [(OwnerKey, ''istio-system'')]
        [(InternalKey, ''true'')],
      netpol ''app'' ''istio-expose-route'' [(MemberOfKey, ''istio-system'')] [],
      netpol ''app'' ''istio-obsolete'' [(MemberOfKey, ''istio-system'')] []]"

definition exampleWorld :: "object list world" where
  "exampleWorld = \<lparr>cluster = exampleCluster, calls = []\<rparr>"

text \<open>The strategy \<open>newNetworkPolicyStrategy\<close> builds on that cluster.\<close>

definition exampleStrategy :: "object list Client \<Rightarrow> object list networkPolicyStrategy" where
  "exampleStrategy cl =
     \<lparr>Client = cl, meshNamespace = ''istio-system'',
      requiredNetworkPolicies = [''istio-mesh'', ''istio-expose-route''],
      networkPoliciesList = take 3 exampleCluster\<rparr>"

text \<open>
  A deployment whose live state differs from the desired one in a field the server will
  not change, a patch the server rejects as invalid, a processor on the in-memory
  cluster, and a batch of five documents whose third does not decode.
\<close>

definition exampleDeployment :: "string \<Rightarrow> string \<Rightarrow> object" where
  "exampleDeployment rv payload =
     Object \<lparr>Group = ''apps'', Version = ''v1'', Kind = ''Deployment''\<rparr>
       \<lparr>Name = ''web'', Namespace = ''app'', Labels = [], Annotations = [],
        ResourceVersion = rv\<rparr> payload None []"

definition rejectingPatch :: "object list Patch" where
  "rejectingPatch obj s = (Some (Err StatusReasonInvalid ''field is immutable''), obj, s)"

definition exampleProcessor :: "error option \<Rightarrow> error option \<Rightarrow> object list ManifestProcessor" where
  "exampleProcessor createFailure deleteFailure =
     \<lparr>Client = fakeClient createFailure deleteFailure,
      PatchFactory = (\<lambda>live obj. (if Payload live = Payload obj then None else Some rejectingPatch, None,
                        SetResourceVersion obj (GetResourceVersion live))),
      preprocessObject = (\<lambda>obj s. (None, obj, s)),
      processNewObject = (\<lambda>obj s. (None, obj, s)),
      appInstance = ''basic'', appVersion = ''2.1.0'', owner = ''istio-system''\<rparr>"

definition configMap :: "string \<Rightarrow> object" where
  "configMap n =
     Object \<lparr>Group = [], Version = ''v1'', Kind = ''ConfigMap''\<rparr>
       \<lparr>Name = n, Namespace = ''istio-system'', Labels = [], Annotations = [],
        ResourceVersion = []\<rparr> ''data'' None []"

definition exampleExternals :: externals where
  "exampleExternals =
     \<lparr>SplitManifests = map (\<lambda>c. [c]),
      YAMLToJSON = (\<lambda>raw. if raw = ''!'' then Inl (Err StatusReasonUnknown ''yaml: did not find expected key'')
                           else Inr raw),
      Decode = (\<lambda>rawJSON. Inr (configMap rawJSON)),
      CreateApplyAnnotation = (\<lambda>obj. obj)\<rparr>"

definition liveWorld :: "object list world" where
  "liveWorld = \<lparr>cluster = [exampleDeployment ''41'' ''selector: a''], calls = []\<rparr>"

definition exampleManifests :: "manifest list" where
  "exampleManifests =
     [\<lparr>ManifestName = ''templates/configmaps.yaml'', ManifestContent = ''ab!cd''\<rparr>,
      \<lparr>ManifestName = ''templates/NOTES.txt'', ManifestContent = ''zz''\<rparr>]"

definition emptyWorld :: "object list world" where
  "emptyWorld = \<lparr>cluster = [], calls = []\<rparr>"

text \<open>
  Definitions named by one letter, with or without a version label; versions read as
  numbers; a directory of two files, \<open>bad.yaml\<close> (a document that does not decode, then
  the definition \<open>x\<close>) and \<open>good.yaml\<close> (the definition \<open>y\<close>); a cluster that holds \<open>x\<close>.
\<close>

definition exampleCRD :: "string \<Rightarrow> string \<Rightarrow> string \<Rightarrow> object" where
  "exampleCRD n ver payload =
     Object \<lparr>Group = ''apiextensions.k8s.io'', Version = ''v1beta1'',
             Kind = ''CustomResourceDefinition''\<rparr>
       \<lparr>Name = n, Namespace = [],
        Labels = (if ver = [] then [] else [(''maistra-version'', ver)]),
        Annotations = [], ResourceVersion = []\<rparr> payload None []"

definition exampleCrdExternals :: "nat crdExternals" where
  "exampleCrdExternals =
     \<lparr>NewVersion = (\<lambda>v. if v = ''1.0.0'' then Inr 100 else if v = ''1.1.0'' then Inr 110
                         else Inl (Err StatusReasonUnknown ''Invalid Semantic Version'')),
      LessThan = (\<lambda>v v'. v < v'),
      GetChartsDir = (\<lambda>v. ''/charts/'' @ v),
      PathJoin = (\<lambda>dir elem. dir @ ''/'' @ elem),
      Stat = (\<lambda>path. Inr True),
      WalkEntries = (\<lambda>root.
        [\<lparr>EntryPath = root, EntryIsDir = True, EntryErr = None\<rparr>,
         \<lparr>EntryPath = root @ ''/bad.yaml'', EntryIsDir = False, EntryErr = None\<rparr>,
         \<lparr>EntryPath = root @ ''/good.yaml'', EntryIsDir = False, EntryErr = None\<rparr>]),
      OpenFile = (\<lambda>path. None),
      ReadFrom = (\<lambda>path. if HasSuffix path ''/bad.yaml'' then Inr ''!x'' else Inr ''y''),
      GetPatchedObject = (\<lambda>existing crd.
        if Payload existing = Payload crd \<and> GetLabels existing = GetLabels crd then (None, None)
        else (Some (PatchedUnstructured (SetResourceVersion crd (GetResourceVersion existing))),
              None)),
      RemoveTypeObjectFieldsFromCRDSchema = (\<lambda>crd. (None, crd))\<rparr>"

definition crdFileExternals :: externals where
  "crdFileExternals =
     \<lparr>SplitManifests = map (\<lambda>c. [c]),
      YAMLToJSON = (\<lambda>raw. if raw = ''!'' then Inl (Err StatusReasonUnknown ''yaml: did not find expected key'')
                           else Inr raw),
      Decode = (\<lambda>rawJSON. Inr (exampleCRD rawJSON ''1.1.0'' ''schema'')),
      CreateApplyAnnotation = (\<lambda>obj. obj)\<rparr>"

definition crdWorld :: "string \<Rightarrow> object list world" where
  "crdWorld ver = \<lparr>cluster = [SetResourceVersion (exampleCRD ''x'' ver ''schema v1'') ''5''], calls = []\<rparr>"

text \<open>The namespace of the reconciler's test, and a reconciler for the mesh
  \<open>cp-namespace\<close>.\<close>

definition appNamespace :: "(string \<times> string) list \<Rightarrow> object" where
  "appNamespace ls =
     Object NamespaceGVK
       \<lparr>Name = ''app-namespace'', Namespace = [], Labels = ls, Annotations = [],
        ResourceVersion = ''1''\<rparr> [] None []"

definition exampleReconciler :: "object list namespaceReconciler" where
  "exampleReconciler =
     \<lparr>Client = fakeClient None None, reconcilerMeshNamespace = ''cp-namespace'',
      meshTemplates = [], networkingStrategy = (\<lambda>namespace' w. (None, w))\<rparr>"


section \<open>Theorems\<close>

subsection \<open>Helper lemmas\<close>

lemma GetObjectMeta_SetObjectMeta [simp]: "GetObjectMeta (SetObjectMeta obj m) = m"
  by (cases obj) simp

lemma GetGroupVersionKind_SetObjectMeta [simp]:
  "GetGroupVersionKind (SetObjectMeta obj m) = GetGroupVersionKind obj"
  by (cases obj) simp

lemma GetName_memberNetworkPolicy [simp]:
  "GetName (memberNetworkPolicy mesh ns m) = GetName m"
  by (simp add: memberNetworkPolicy_def SetLabel_def GetName_def)

lemma GetNamespace_memberNetworkPolicy [simp]:
  "GetNamespace (memberNetworkPolicy mesh ns m) = ns"
  by (simp add: memberNetworkPolicy_def SetLabel_def GetNamespace_def)

lemma MemberOf_memberNetworkPolicy [simp]:
  "map_of (GetLabels (memberNetworkPolicy mesh ns m)) MemberOfKey = Some mesh"
  by (simp add: memberNetworkPolicy_def SetLabel_def GetLabels_def update_conv)

lemma createdObjects_append [simp]:
  "createdObjects (xs @ ys) = createdObjects xs @ createdObjects ys"
  by (induction xs rule: createdObjects.induct) simp_all

lemma deleteCalls_append [simp]: "deleteCalls (xs @ ys) = deleteCalls xs @ deleteCalls ys"
  by (induction xs rule: deleteCalls.induct) simp_all

lemma createErrors_append [simp]: "createErrors (xs @ ys) = createErrors xs @ createErrors ys"
  by (induction xs rule: createErrors.induct) simp_all

lemma deleteErrors_append [simp]: "deleteErrors (xs @ ys) = deleteErrors xs @ deleteErrors ys"
  by (induction xs rule: deleteErrors.induct) simp_all

lemma Client_Delete_calls:
  "Client_Delete cl obj p w = (err, w1) \<Longrightarrow> calls w1 = calls w @ [CallDelete obj p err]"
  by (auto simp: Client_Delete_def split: prod.splits)

lemma Client_Create_calls:
  "Client_Create cl obj w = (err, obj', w1) \<Longrightarrow> calls w1 = calls w @ [CallCreate obj err]"
  by (auto simp: Client_Create_def split: prod.splits)

lemma writtenNames_append [simp]: "writtenNames (xs @ ys) = writtenNames xs @ writtenNames ys"
  by (induction xs rule: writtenNames.induct) simp_all

lemma set_Insert [simp]: "set (Insert s x) = insert x (set s)"
  by (auto simp: Insert_def)

lemma set_foldl_Insert: "set (foldl Insert s xs) = set s \<union> set xs"
  by (induction xs arbitrary: s) auto

lemma set_Union [simp]: "set (Union s1 s2) = set s1 \<union> set s2"
  by (simp add: Union_def set_foldl_Insert)

lemma set_Difference [simp]: "set (Difference s1 s2) = set s1 - set s2"
  by (auto simp: Difference_def Has_def)

lemma set_nameSet_aux:
  "set (foldl (\<lambda>s obj. Insert s (GetName obj)) acc xs) = set acc \<union> GetName ` set xs"
  by (induction xs arbitrary: acc) auto

lemma set_nameSet [simp]: "set (nameSet xs) = GetName ` set xs"
  by (simp add: nameSet_def NewString_def set_nameSet_aux)


lemma deleteObsolete_calls:
  "deleteObsoleteNetworkPolicies s ns names (errs, w) = (errs', w') \<Longrightarrow>
   \<exists>new. calls w' = calls w @ new
      \<and> map eraseResult new
          = map (\<lambda>n. CallDelete (obsoleteNetworkPolicy ns n) (Some DeletePropagationForeground) None) names
      \<and> errs' = errs @ filter (\<lambda>e. \<not> (IsNotFound (Some e) \<or> IsGone (Some e))) (deleteErrors new)"
proof (induction names arbitrary: errs w)
  case Nil
  then show ?case by simp
next
  case (Cons n names)
  obtain err w1 where d: "Client_Delete (Client s) (obsoleteNetworkPolicy ns n)
        (Some DeletePropagationForeground) w = (err, w1)"
    by (cases "Client_Delete (Client s) (obsoleteNetworkPolicy ns n)
        (Some DeletePropagationForeground) w") 
  let ?errs1 = "(case err of None \<Rightarrow> errs
            | Some e \<Rightarrow> if \<not> (IsNotFound err \<or> IsGone err) then errs @ [e] else errs)"
  from Cons.prems d have rest: "deleteObsoleteNetworkPolicies s ns names (?errs1, w1) = (errs', w')"
    by simp
  from Cons.IH [OF rest] obtain new where new:
    "calls w' = calls w1 @ new"
    "map eraseResult new
       = map (\<lambda>n. CallDelete (obsoleteNetworkPolicy ns n) (Some DeletePropagationForeground) None) names"
    "errs' = ?errs1 @ filter (\<lambda>e. \<not> (IsNotFound (Some e) \<or> IsGone (Some e))) (deleteErrors new)"
    by blast
  let ?c = "CallDelete (obsoleteNetworkPolicy ns n) (Some DeletePropagationForeground) err"
  have c: "calls w' = calls w @ (?c # new)"
    using new(1) Client_Delete_calls [OF d] by simp
  show ?case
    apply (rule exI [of _ "?c # new"])
    using c new(2,3) by (cases err) auto
qed

lemma addRequired_calls:
  "addRequiredNetworkPolicies s ns existing ms (errs, added, w) = (errs', added', w') \<Longrightarrow>
   \<exists>new. calls w' = calls w @ new
      \<and> map eraseResult new
          = map (\<lambda>m. CallCreate (memberNetworkPolicy (meshNamespace s) ns m) None)
              (filter (\<lambda>m. Has (requiredNetworkPolicies s) (GetName m) \<and> \<not> Has existing (GetName m)) ms)
      \<and> errs' = errs @ createErrors new
      \<and> set added' = set added \<union> GetName ` set (createdObjects new)"
proof (induction ms arbitrary: errs added w)
  case Nil
  then show ?case by simp
next
  case (Cons m ms)
  let ?P = "\<lambda>m. Has (requiredNetworkPolicies s) (GetName m) \<and> \<not> Has existing (GetName m)"
  show ?case
  proof (cases "?P m")
    case False
    with Cons.prems have "addRequiredNetworkPolicies s ns existing ms (errs, added, w) = (errs', added', w')"
      by (auto simp: Let_def split: if_splits)
    from Cons.IH [OF this] False show ?thesis by auto
  next
    case True
    let ?np = "memberNetworkPolicy (meshNamespace s) ns m"
    obtain err created w1 where c: "Client_Create (Client s) ?np w = (err, created, w1)"
      by (cases "Client_Create (Client s) ?np w")
    let ?errs1 = "case err of None \<Rightarrow> errs | Some e \<Rightarrow> errs @ [e]"
    let ?added1 = "case err of None \<Rightarrow> Insert added (GetName m) | Some e \<Rightarrow> added"
    from Cons.prems True c
    have rest: "addRequiredNetworkPolicies s ns existing ms (?errs1, ?added1, w1) = (errs', added', w')"
      by (auto simp: Let_def split: option.splits)
    from Cons.IH [OF rest] obtain new where new:
      "calls w' = calls w1 @ new"
      "map eraseResult new
          = map (\<lambda>m. CallCreate (memberNetworkPolicy (meshNamespace s) ns m) None) (filter ?P ms)"
      "errs' = ?errs1 @ createErrors new"
      "set added' = set ?added1 \<union> GetName ` set (createdObjects new)"
      by blast
    have cw: "calls w' = calls w @ (CallCreate ?np err # new)"
      using new(1) Client_Create_calls [OF c] by simp
    show ?thesis
      apply (rule exI [of _ "CallCreate ?np err # new"])
      using cw new(2-4) True by (cases err) auto
  qed
qed

lemma shape_delete:
  "map eraseResult xs = map (\<lambda>n. CallDelete (f n) p None) names \<Longrightarrow>
   createErrors xs = [] \<and> createdObjects xs = [] \<and> deleteCalls xs = map (\<lambda>n. (f n, p)) names
   \<and> writtenNames xs = map (\<lambda>n. GetName (f n)) names"
proof (induction xs arbitrary: names)
  case Nil
  then show ?case by simp
next
  case (Cons c xs)
  then obtain n ns where names: "names = n # ns" by (cases names) auto
  with Cons.prems have c: "eraseResult c = CallDelete (f n) p None"
    and rest: "map eraseResult xs = map (\<lambda>n. CallDelete (f n) p None) ns"
    by simp_all
  from c obtain err where "c = CallDelete (f n) p err" by (cases c) auto
  with Cons.IH [OF rest] names show ?case by simp
qed

lemma shape_create:
  "map eraseResult xs = map (\<lambda>m. CallCreate (f m) None) ms \<Longrightarrow>
   deleteErrors xs = [] \<and> deleteCalls xs = [] \<and> writtenNames xs = map (\<lambda>m. GetName (f m)) ms
   \<and> (createErrors xs = [] \<longrightarrow> createdObjects xs = map f ms)"
proof (induction xs arbitrary: ms)
  case Nil
  then show ?case by simp
next
  case (Cons c xs)
  then obtain m ms' where ms: "ms = m # ms'" by (cases ms) auto
  with Cons.prems have c: "eraseResult c = CallCreate (f m) None"
    and rest: "map eraseResult xs = map (\<lambda>m. CallCreate (f m) None) ms'"
    by simp_all
  from c obtain err where "c = CallCreate (f m) err" by (cases c) auto
  with Cons.IH [OF rest] ms show ?case by (cases err) simp_all
qed

lemma Client_List_simp:
  "Client_List cl opts gvk w
     = (ListObjects cl (cluster w) opts gvk,
        w\<lparr>calls := calls w @ [CallList opts gvk (errorOf (ListObjects cl (cluster w) opts gvk))]\<rparr>)"
  by (simp add: Client_List_def Let_def)

lemma reconcile_unfold:
  assumes listed: "ListObjects (Client s) (cluster w)
      \<lparr>MatchingLabels = [(MemberOfKey, meshNamespace s)], InNamespace = ns\<rparr> NetworkPolicyGVK
        = Inr existing"
  shows "\<exists>cr dl added.
      calls (snd (reconcileNamespaceInMesh s ns w))
        = calls w @ [CallList \<lparr>MatchingLabels = [(MemberOfKey, meshNamespace s)], InNamespace = ns\<rparr>
                        NetworkPolicyGVK None] @ cr @ dl
    \<and> map eraseResult cr
        = map (\<lambda>m. CallCreate (memberNetworkPolicy (meshNamespace s) ns m) None)
            (filter (\<lambda>m. Has (requiredNetworkPolicies s) (GetName m)
                        \<and> \<not> Has (nameSet existing) (GetName m)) (networkPoliciesList s))
    \<and> map eraseResult dl
        = map (\<lambda>n. CallDelete (obsoleteNetworkPolicy ns n) (Some DeletePropagationForeground) None)
            (Difference (Union (nameSet existing) added) (requiredNetworkPolicies s))
    \<and> set added = GetName ` set (createdObjects cr)
    \<and> fst (reconcileNamespaceInMesh s ns w)
        = NewAggregate (createErrors cr
            @ filter (\<lambda>e. \<not> (IsNotFound (Some e) \<or> IsGone (Some e))) (deleteErrors dl))"
proof -
  let ?opts = "\<lparr>MatchingLabels = [(MemberOfKey, meshNamespace s)], InNamespace = ns\<rparr>"
  let ?w1 = "w\<lparr>calls := calls w @ [CallList ?opts NetworkPolicyGVK None]\<rparr>"
  obtain errs1 added w2 where a:
    "addRequiredNetworkPolicies s ns (nameSet existing) (networkPoliciesList s) ([], NewString, ?w1)
       = (errs1, added, w2)"
    by (cases "addRequiredNetworkPolicies s ns (nameSet existing) (networkPoliciesList s)
          ([], NewString, ?w1)")
  obtain errs2 w3 where d:
    "deleteObsoleteNetworkPolicies s ns
       (Difference (Union (nameSet existing) added) (requiredNetworkPolicies s)) (errs1, w2)
       = (errs2, w3)"
    by (cases "deleteObsoleteNetworkPolicies s ns
       (Difference (Union (nameSet existing) added) (requiredNetworkPolicies s)) (errs1, w2)")
  have r: "reconcileNamespaceInMesh s ns w = (NewAggregate errs2, w3)"
    using listed a d
    by (simp add: reconcileNamespaceInMesh_def Client_List_simp errorOf_def Let_def)
  from addRequired_calls [OF a] obtain cr where cr:
    "calls w2 = calls ?w1 @ cr"
    "map eraseResult cr
        = map (\<lambda>m. CallCreate (memberNetworkPolicy (meshNamespace s) ns m) None)
            (filter (\<lambda>m. Has (requiredNetworkPolicies s) (GetName m)
                        \<and> \<not> Has (nameSet existing) (GetName m)) (networkPoliciesList s))"
    "errs1 = [] @ createErrors cr"
    "set added = set NewString \<union> GetName ` set (createdObjects cr)"
    by blast
  from deleteObsolete_calls [OF d] obtain dl where dl:
    "calls w3 = calls w2 @ dl"
    "map eraseResult dl
        = map (\<lambda>n. CallDelete (obsoleteNetworkPolicy ns n) (Some DeletePropagationForeground) None)
            (Difference (Union (nameSet existing) added) (requiredNetworkPolicies s))"
    "errs2 = errs1 @ filter (\<lambda>e. \<not> (IsNotFound (Some e) \<or> IsGone (Some e))) (deleteErrors dl)"
    by blast
  show ?thesis
    apply (rule exI [of _ cr], rule exI [of _ dl], rule exI [of _ added])
    using r cr dl by (simp add: NewString_def)
qed


lemma NewAggregate_None [simp]: "NewAggregate es = None \<longleftrightarrow> es = []"
  by (simp add: NewAggregate_def)

lemmas eval_defs = newNetworkPolicyStrategy_def Client_List_def Client_Create_def Client_Delete_def
  Client_Get_def Client_Update_def
  fakeClient_def fakeList_def fakeCreate_def fakeDelete_def fakeGet_def fakeUpdate_def
  exampleWorld_def exampleCluster_def netpol_def exampleStrategy_def
  GetName_def GetNamespace_def GetLabels_def GetAnnotations_def GetAnnotation_def GetKind_def
  GetResourceVersion_def
  OwnerKey_def MemberOfKey_def InternalKey_def NetworkPolicyGVK_def
  Insert_def NewString_def Has_def Union_def Difference_def nameSet_def copyMap_def
  memberNetworkPolicy_def obsoleteNetworkPolicy_def reconcileNamespaceInMesh_def
  SetLabel_def SetResourceVersion_def sameObject_def errorOf_def NewAggregate_def
  IsNotFound_def IsGone_def IsInvalid_def Let_def

subsection \<open>Control-plane deletion\<close>

text \<open>
  C8. \<open>ControlPlaneReconciler.Delete\<close> first records the event of type \<open>Normal\<close>, reason
  \<open>ServiceMeshDeleting\<close> and message \<open>Deleting service mesh\<close>, then invokes prune with
  priority -1 on the reconciler that holds that event, then records exactly one more
  event, of reason \<open>ServiceMeshDeleted\<close>: of type \<open>Normal\<close> with the message
  \<open>Successfully deleted service mesh components\<close> if and only if prune returned nil,
  otherwise of type \<open>Warning\<close> with a message that carries the error; it returns the
  error prune returned and changes nothing else of what prune left.
\<close>

theorem Delete_events_around_prune:
  fixes prune :: "int \<Rightarrow> 'r ControlPlaneReconciler \<Rightarrow> error option \<times> 'r ControlPlaneReconciler"
  assumes "prune (- 1)
      (r\<lparr>Recorded := Recorded r
           @ [Event ''Normal'' ''ServiceMeshDeleting'' ''Deleting service mesh'']\<rparr>) = (err, r2)"
  shows "ControlPlaneReconciler_Delete prune r
      = (err,
         r2\<lparr>Recorded := Recorded r2 @
           [case err of
              None \<Rightarrow> Event ''Normal'' ''ServiceMeshDeleted''
                        ''Successfully deleted service mesh components''
            | Some e \<Rightarrow> Event ''Warning'' ''ServiceMeshDeleted''
                        (''Error occurred during service mesh deletion: '' @ Error e)]\<rparr>)
    \<and> ((last (Recorded (snd (ControlPlaneReconciler_Delete prune r)))
           = Event ''Normal'' ''ServiceMeshDeleted''
               ''Successfully deleted service mesh components'') \<longleftrightarrow> err = None)
    \<and> length (Recorded (snd (ControlPlaneReconciler_Delete prune r))) = Suc (length (Recorded r2))"
  using assms
  by (simp add: ControlPlaneReconciler_Delete_def RecordEvent_def ServiceMeshDeleted_def
      ServiceMeshDeleting_def split: option.splits)

theorem Delete_events_around_prune_witness:
  "ControlPlaneReconciler_Delete (prune_stub (Some (Err StatusReasonConflict ''busy'')))
       \<lparr>Recorded = [], Instance = 3\<rparr>
     = (Some (Err StatusReasonConflict ''busy''),
        \<lparr>Recorded = [Event ''Normal'' ''ServiceMeshDeleting'' ''Deleting service mesh'',
            Event ''Warning'' ''ServiceMeshDeleted''
              ''Error occurred during service mesh deletion: busy''],
         Instance = 0\<rparr>)
   \<and> ControlPlaneReconciler_Delete (prune_stub None) \<lparr>Recorded = [], Instance = 3\<rparr>
     = (None,
        \<lparr>Recorded = [Event ''Normal'' ''ServiceMeshDeleting'' ''Deleting service mesh'',
            Event ''Normal'' ''ServiceMeshDeleted''
              ''Successfully deleted service mesh components''],
         Instance = 0\<rparr>)"
proof -
  let ?e = "Err StatusReasonConflict ''busy''"
  let ?deleting = "Event ''Normal'' ''ServiceMeshDeleting'' ''Deleting service mesh''"
  let ?r = "\<lparr>Recorded = [], Instance = 3::nat\<rparr>"
  let ?r2 = "\<lparr>Recorded = [?deleting], Instance = 0::nat\<rparr>"
  have failed: "prune_stub (Some ?e) (- 1) (?r\<lparr>Recorded := Recorded ?r @ [?deleting]\<rparr>)
      = (Some ?e, ?r2)"
    by (simp add: prune_stub_def)
  have pruned: "prune_stub None (- 1) (?r\<lparr>Recorded := Recorded ?r @ [?deleting]\<rparr>)
      = (None, ?r2)"
    by (simp add: prune_stub_def)
  note t1 = Delete_events_around_prune
    [where prune = "prune_stub (Some ?e)" and r = ?r and err = "Some ?e" and ?r2.0 = ?r2,
     OF failed, THEN conjunct1]
  note t2 = Delete_events_around_prune
    [where prune = "prune_stub None" and r = ?r and err = None and ?r2.0 = ?r2,
     OF pruned, THEN conjunct1]
  from t1 t2 show ?thesis by simp
qed

subsection \<open>The network-policy strategy\<close>








lemma SetResourceVersion_fields [simp]:
  "GetGroupVersionKind (SetResourceVersion obj v) = GetGroupVersionKind obj"
  "GetName (SetResourceVersion obj v) = GetName obj"
  "GetNamespace (SetResourceVersion obj v) = GetNamespace obj"
  "GetLabels (SetResourceVersion obj v) = GetLabels obj"
  by (cases obj; simp add: SetResourceVersion_def GetName_def GetNamespace_def GetLabels_def)+

lemma GetGroupVersionKind_memberNetworkPolicy [simp]:
  "GetGroupVersionKind (memberNetworkPolicy mesh ns m) = GetGroupVersionKind m"
  by (simp add: memberNetworkPolicy_def SetLabel_def)




text \<open>
  C10. In the network-policy strategy's \<open>reconcileNamespaceInMesh\<close>, once the policies of
  the namespace are listed, the error returned is the aggregate of the errors of the
  Create calls followed by those errors of the Delete calls that are neither NotFound
  nor Gone: a deletion that fails with NotFound or Gone adds nothing to the aggregate.
\<close>

theorem reconcile_ignores_NotFound_and_Gone:
  assumes listed: "ListObjects (Client s) (cluster w)
      \<lparr>MatchingLabels = [(MemberOfKey, meshNamespace s)], InNamespace = ns\<rparr> NetworkPolicyGVK
        = Inr existing"
  shows "\<exists>new. calls (snd (reconcileNamespaceInMesh s ns w)) = calls w @ new
    \<and> fst (reconcileNamespaceInMesh s ns w)
        = NewAggregate (createErrors new
            @ filter (\<lambda>e. \<not> (IsNotFound (Some e) \<or> IsGone (Some e))) (deleteErrors new))"
proof -
  from reconcile_unfold [OF listed] obtain cr dl added where u:
    "calls (snd (reconcileNamespaceInMesh s ns w))
        = calls w @ [CallList \<lparr>MatchingLabels = [(MemberOfKey, meshNamespace s)], InNamespace = ns\<rparr>
                        NetworkPolicyGVK None] @ cr @ dl"
    "map eraseResult cr
        = map (\<lambda>m. CallCreate (memberNetworkPolicy (meshNamespace s) ns m) None)
            (filter (\<lambda>m. Has (requiredNetworkPolicies s) (GetName m)
                        \<and> \<not> Has (nameSet existing) (GetName m)) (networkPoliciesList s))"
    "map eraseResult dl
        = map (\<lambda>n. CallDelete (obsoleteNetworkPolicy ns n) (Some DeletePropagationForeground) None)
            (Difference (Union (nameSet existing) added) (requiredNetworkPolicies s))"
    "fst (reconcileNamespaceInMesh s ns w)
        = NewAggregate (createErrors cr
            @ filter (\<lambda>e. \<not> (IsNotFound (Some e) \<or> IsGone (Some e))) (deleteErrors dl))"
    by blast
  have "deleteErrors cr = []" using shape_create [OF u(2)] by simp
  moreover have "createErrors dl = []" using shape_delete [OF u(3)] by simp
  ultimately show ?thesis
    apply -
    apply (rule exI [of _ "[CallList \<lparr>MatchingLabels = [(MemberOfKey, meshNamespace s)], InNamespace = ns\<rparr>
                        NetworkPolicyGVK None] @ cr @ dl"])
    using u(1,4) by simp
qed

theorem reconcile_ignores_NotFound_and_Gone_witness:
  "fst (reconcileNamespaceInMesh
          (exampleStrategy (fakeClient None (Some (Err StatusReasonNotFound ''not found''))))
          ''app'' exampleWorld) = None
   \<and> deleteErrors (calls (snd (reconcileNamespaceInMesh
          (exampleStrategy (fakeClient None (Some (Err StatusReasonNotFound ''not found''))))
          ''app'' exampleWorld))) = [Err StatusReasonNotFound ''not found'']"
proof -
  let ?cl = "fakeClient None (Some (Err StatusReasonNotFound ''not found''))"
  let ?s = "exampleStrategy ?cl"
  have listed: "ListObjects (Client ?s) (cluster exampleWorld)
      \<lparr>MatchingLabels = [(MemberOfKey, meshNamespace ?s)], InNamespace = ''app''\<rparr> NetworkPolicyGVK
        = Inr (drop 3 exampleCluster)"
    by (simp add: eval_defs)
  have tr: "calls (snd (reconcileNamespaceInMesh ?s ''app'' exampleWorld))
      = [CallList \<lparr>MatchingLabels = [(MemberOfKey, ''istio-system'')], InNamespace = ''app''\<rparr>
           NetworkPolicyGVK None,
         CallCreate (memberNetworkPolicy ''istio-system'' ''app'' (hd exampleCluster)) None,
         CallDelete (obsoleteNetworkPolicy ''app'' ''istio-obsolete'')
           (Some DeletePropagationForeground) (Some (Err StatusReasonNotFound ''not found''))]"
    by (simp add: eval_defs)
  from reconcile_ignores_NotFound_and_Gone [OF listed] obtain new where new:
    "calls (snd (reconcileNamespaceInMesh ?s ''app'' exampleWorld)) = calls exampleWorld @ new"
    "fst (reconcileNamespaceInMesh ?s ''app'' exampleWorld)
        = NewAggregate (createErrors new
            @ filter (\<lambda>e. \<not> (IsNotFound (Some e) \<or> IsGone (Some e))) (deleteErrors new))"
    by blast
  from new(1) have n: "new = calls (snd (reconcileNamespaceInMesh ?s ''app'' exampleWorld))"
    by (simp add: exampleWorld_def)
  have "fst (reconcileNamespaceInMesh ?s ''app'' exampleWorld) = None"
    using new(2) unfolding n tr by (simp add: IsNotFound_def)
  moreover have "deleteErrors (calls (snd (reconcileNamespaceInMesh ?s ''app'' exampleWorld)))
      = [Err StatusReasonNotFound ''not found'']"
    unfolding tr by simp
  ultimately show ?thesis by simp
qed



subsection \<open>The manifest processor\<close>

lemma processObject_resource:
  "GetKind obj \<noteq> ''List'' \<Longrightarrow> processObject p ext obj c w = processResource p ext obj c w"
  by (cases obj) (simp add: GetKind_def)

lemma deleteAndRecreate_result:
  assumes del: "Delete (Client p) (cluster w) obj (Some DeletePropagationBackground) = (deleteErr, s4)"
    and cr: "Create (Client p) s4 (SetResourceVersion obj []) = (createErr, obj6, s5)"
  shows "deleteAndRecreate p err obj w =
     (if deleteErr = None \<and> createErr = None then None else err,
      \<lparr>cluster = (if deleteErr = None then s5 else s4),
       calls = calls w @ CallDelete obj (Some DeletePropagationBackground) deleteErr
          # (if deleteErr = None then [CallCreate (SetResourceVersion obj []) createErr] else [])\<rparr>)"
  using del cr
  by (simp add: deleteAndRecreate_def Client_Delete_def Client_Create_def Let_def)

lemma processObject_invalid_patch:
  assumes kind: "GetKind obj \<noteq> ''List''"
    and pre: "preprocessObject p (addMetadata p obj component) (cluster w) = (None, obj2, s1)"
    and get: "Get (Client p) s1 (ObjectKeyFromObject (ToUnstructured obj)) (ToUnstructured obj) = Inr live"
    and cp: "PatchFactory p live (CreateApplyAnnotation ext obj2) = (Some patch, None, obj4)"
    and ap: "patch obj4 s1 = (Some applyErr, obj5, s3)"
    and inv: "IsInvalid (Some applyErr)"
    and del: "Delete (Client p) s3 obj5 (Some DeletePropagationBackground) = (deleteErr, s4)"
    and cr: "Create (Client p) s4 (SetResourceVersion obj5 []) = (createErr, obj6, s5)"
  shows "processObject p ext obj component w =
     (if deleteErr = None \<and> createErr = None then None else Some applyErr,
      \<lparr>cluster = (if deleteErr = None then s5 else s4),
       calls = calls w @
         [CallGet (ObjectKeyFromObject (ToUnstructured obj)) (ToUnstructured obj) None,
          CallPatchApply live obj4 (Some applyErr),
          CallDelete obj5 (Some DeletePropagationBackground) deleteErr]
         @ (if deleteErr = None then [CallCreate (SetResourceVersion obj5 []) createErr] else [])\<rparr>)"
proof -
  let ?w3 = "\<lparr>cluster = s3, calls = calls w @
         [CallGet (ObjectKeyFromObject (ToUnstructured obj)) (ToUnstructured obj) None,
          CallPatchApply live obj4 (Some applyErr)]\<rparr>"
  have d: "Delete (Client p) (cluster ?w3) obj5 (Some DeletePropagationBackground) = (deleteErr, s4)"
    using del by simp
  have "processResource p ext obj component w = deleteAndRecreate p (Some applyErr) obj5 ?w3"
    using pre get cp ap inv
    by (simp add: processResource_def Client_Get_def Patch_Apply_def errorOf_def Let_def)
  also have "\<dots> = (if deleteErr = None \<and> createErr = None then None else Some applyErr,
      \<lparr>cluster = (if deleteErr = None then s5 else s4),
       calls = calls ?w3 @ CallDelete obj5 (Some DeletePropagationBackground) deleteErr
          # (if deleteErr = None then [CallCreate (SetResourceVersion obj5 []) createErr] else [])\<rparr>)"
    by (rule deleteAndRecreate_result [OF d cr])
  finally show ?thesis
    using processObject_resource [OF kind, of p ext component w] by simp
qed

lemma GetResourceVersion_SetResourceVersion [simp]:
  "GetResourceVersion (SetResourceVersion obj v) = v"
  by (cases obj) (simp add: GetResourceVersion_def SetResourceVersion_def)

lemma decodeFailures_append [simp]:
  "decodeFailures ext (xs @ ys) = decodeFailures ext xs @ decodeFailures ext ys"
  by (induction xs) (simp_all split: sum.splits)

lemma decodedObjects_append [simp]:
  "decodedObjects ext (xs @ ys) = decodedObjects ext xs @ decodedObjects ext ys"
  by (induction xs) (simp_all split: sum.splits)

lemma processItems_append:
  "processItems p ext (xs @ ys) c w =
     (fst (processItems p ext xs c w) @ fst (processItems p ext ys c (snd (processItems p ext xs c w))),
      snd (processItems p ext ys c (snd (processItems p ext xs c w))))"
proof (induction xs arbitrary: w)
  case Nil
  show ?case by simp
next
  case (Cons x xs)
  show ?case
    by (simp add: Cons.IH Let_def split: prod.splits option.splits)
qed

lemma processDocuments_decoded:
  "processDocuments p ext c docs (errs, w) = (errs', w') \<Longrightarrow>
   mset errs' = mset errs + mset (decodeFailures ext docs)
                 + mset (fst (processItems p ext (decodedObjects ext docs) c w))
   \<and> w' = snd (processItems p ext (decodedObjects ext docs) c w)"
proof (induction docs arbitrary: errs w)
  case Nil
  then show ?case by simp
next
  case (Cons raw docs)
  show ?case
  proof (cases "decodeDocument ext raw")
    case (Inl err)
    with Cons.prems have "processDocuments p ext c docs (errs @ [err], w) = (errs', w')"
      by (auto simp: decodeDocument_def split: sum.splits)
    from Cons.IH [OF this] Inl show ?thesis by simp
  next
    case (Inr obj)
    obtain e w1 where po: "processObject p ext obj c w = (e, w1)"
      by (cases "processObject p ext obj c w")
    from Cons.prems Inr po
    have "processDocuments p ext c docs
            (case e of None \<Rightarrow> errs | Some e' \<Rightarrow> errs @ [e'], w1) = (errs', w')"
      by (auto simp: decodeDocument_def split: sum.splits)
    from Cons.IH [OF this] Inr po show ?thesis
      by (cases e) (simp_all add: Let_def split: prod.splits)
  qed
qed

lemma processManifestList_decoded:
  "processManifestList p ext c manifests (errs, w) = (errs', w') \<Longrightarrow>
   mset errs' = mset errs + mset (decodeFailures ext (documentsOf ext manifests))
                 + mset (fst (processItems p ext (decodedObjects ext (documentsOf ext manifests)) c w))
   \<and> w' = snd (processItems p ext (decodedObjects ext (documentsOf ext manifests)) c w)"
proof (induction manifests arbitrary: errs w)
  case Nil
  then show ?case by (simp add: documentsOf_def)
next
  case (Cons man manifests)
  show ?case
  proof (cases "HasSuffix (ManifestName man) ''.yaml''")
    case False
    with Cons.prems have "processManifestList p ext c manifests (errs, w) = (errs', w')"
      by simp
    from Cons.IH [OF this] False show ?thesis by (simp add: documentsOf_def)
  next
    case True
    let ?docs = "SplitManifests ext (ManifestContent man)"
    obtain errs1 w1 where pd: "processDocuments p ext c ?docs (errs, w) = (errs1, w1)"
      by (cases "processDocuments p ext c ?docs (errs, w)")
    from Cons.prems True pd
    have rest: "processManifestList p ext c manifests (errs1, w1) = (errs', w')"
      by simp
    have d: "documentsOf ext (man # manifests) = ?docs @ documentsOf ext manifests"
      using True by (simp add: documentsOf_def)
    from processDocuments_decoded [OF pd] Cons.IH [OF rest]
    show ?thesis
      unfolding d by (simp add: processItems_append)
  qed
qed

lemma Errors_NewAggregate [simp]: "Errors (NewAggregate errs) = errs"
  by (cases errs) (simp_all add: NewAggregate_def)

lemmas eval_defs2 = eval_defs exampleDeployment_def rejectingPatch_def exampleProcessor_def
  configMap_def exampleExternals_def liveWorld_def processResource_def deleteAndRecreate_def
  Patch_Apply_def addMetadata_def ToUnstructured_def ObjectKeyFromObject_def
  KubernetesAppNameKey_def KubernetesAppInstanceKey_def KubernetesAppVersionKey_def
  KubernetesAppComponentKey_def KubernetesAppPartOfKey_def KubernetesAppManagedByKey_def
  HasSuffix_def ProcessManifests_def emptyWorld_def exampleManifests_def

text \<open>
  C1, as the code has it. When the object exists, a patch is computed and its
  application is rejected as invalid, \<open>processObject\<close> deletes and recreates the object;
  its result is nil if both the deletion and the recreation succeed, and otherwise the
  error of the patch application: the errors of the deletion and of the recreation are
  only logged.
\<close>

theorem processObject_fallback_failure_returns_patch_error:
  assumes kind: "GetKind obj \<noteq> ''List''"
    and pre: "preprocessObject p (addMetadata p obj component) (cluster w) = (None, obj2, s1)"
    and get: "Get (Client p) s1 (ObjectKeyFromObject (ToUnstructured obj)) (ToUnstructured obj) = Inr live"
    and cp: "PatchFactory p live (CreateApplyAnnotation ext obj2) = (Some patch, None, obj4)"
    and ap: "patch obj4 s1 = (Some applyErr, obj5, s3)"
    and inv: "IsInvalid (Some applyErr)"
    and del: "Delete (Client p) s3 obj5 (Some DeletePropagationBackground) = (deleteErr, s4)"
    and cr: "Create (Client p) s4 (SetResourceVersion obj5 []) = (createErr, obj6, s5)"
  shows "fst (processObject p ext obj component w)
     = (if deleteErr = None \<and> createErr = None then None else Some applyErr)"
  using processObject_invalid_patch [OF kind pre get cp ap inv del cr] by simp

theorem processObject_fallback_failure_returns_patch_error_witness:
  "fst (processObject (exampleProcessor None (Some (Err StatusReasonConflict ''delete failed'')))
          exampleExternals (exampleDeployment [] ''selector: b'') ''pilot'' liveWorld)
     = Some (Err StatusReasonInvalid ''field is immutable'')"
proof -
  let ?p = "exampleProcessor None (Some (Err StatusReasonConflict ''delete failed''))"
  let ?obj = "exampleDeployment [] ''selector: b''"
  let ?obj2 = "addMetadata ?p ?obj ''pilot''"
  let ?live = "exampleDeployment ''41'' ''selector: a''"
  let ?obj4 = "SetResourceVersion ?obj2 ''41''"
  let ?e = "Err StatusReasonInvalid ''field is immutable''"
  have kind: "GetKind ?obj \<noteq> ''List''"
    by (simp add: exampleDeployment_def GetKind_def)
  have pre: "preprocessObject ?p ?obj2 (cluster liveWorld) = (None, ?obj2, cluster liveWorld)"
    by (simp add: exampleProcessor_def)
  have get: "Get (Client ?p) (cluster liveWorld) (ObjectKeyFromObject (ToUnstructured ?obj))
      (ToUnstructured ?obj) = Inr ?live"
    by (simp add: eval_defs2)
  have cp: "PatchFactory ?p ?live (CreateApplyAnnotation exampleExternals ?obj2)
      = (Some rejectingPatch, None, ?obj4)"
    by (simp add: eval_defs2)
  have ap: "rejectingPatch ?obj4 (cluster liveWorld) = (Some ?e, ?obj4, cluster liveWorld)"
    by (simp add: rejectingPatch_def)
  have inv: "IsInvalid (Some ?e)"
    by (simp add: IsInvalid_def)
  have del: "Delete (Client ?p) (cluster liveWorld) ?obj4 (Some DeletePropagationBackground)
      = (Some (Err StatusReasonConflict ''delete failed''), cluster liveWorld)"
    by (simp add: exampleProcessor_def fakeClient_def fakeDelete_def)
  have cr: "Create (Client ?p) (cluster liveWorld) (SetResourceVersion ?obj4 [])
      = (Some (Err StatusReasonAlreadyExists ''already exists''), SetResourceVersion ?obj4 [],
         cluster liveWorld)"
    by (simp add: eval_defs2)
  from processObject_fallback_failure_returns_patch_error [OF kind pre get cp ap inv del cr]
  show ?thesis by simp
qed

text \<open>
  C1 as stated fails: the recreation fails with \<open>create failed\<close>, and \<open>processObject\<close>
  returns the error of the patch application, not that of the recreation.
\<close>

theorem processObject_returns_recreate_error_counterexample:
  "fst (processObject (exampleProcessor (Some (Err StatusReasonUnknown ''create failed'')) None)
          exampleExternals (exampleDeployment [] ''selector: b'') ''pilot'' liveWorld)
     = Some (Err StatusReasonInvalid ''field is immutable'')
   \<and> createErrors (calls (snd (processObject
          (exampleProcessor (Some (Err StatusReasonUnknown ''create failed'')) None)
          exampleExternals (exampleDeployment [] ''selector: b'') ''pilot'' liveWorld)))
     = [Err StatusReasonUnknown ''create failed'']"
  by (simp add: eval_defs2)

text \<open>
  C3, as the code has it. When the application of the patch is rejected as invalid,
  \<open>processObject\<close> calls Delete on the object with background propagation; if that
  succeeds it clears the object's resource version and calls Create with it; these are
  the only calls it makes after applying the patch.
\<close>

theorem processObject_invalid_patch_background_delete:
  assumes kind: "GetKind obj \<noteq> ''List''"
    and pre: "preprocessObject p (addMetadata p obj component) (cluster w) = (None, obj2, s1)"
    and get: "Get (Client p) s1 (ObjectKeyFromObject (ToUnstructured obj)) (ToUnstructured obj) = Inr live"
    and cp: "PatchFactory p live (CreateApplyAnnotation ext obj2) = (Some patch, None, obj4)"
    and ap: "patch obj4 s1 = (Some applyErr, obj5, s3)"
    and inv: "IsInvalid (Some applyErr)"
    and del: "Delete (Client p) s3 obj5 (Some DeletePropagationBackground) = (deleteErr, s4)"
    and cr: "Create (Client p) s4 (SetResourceVersion obj5 []) = (createErr, obj6, s5)"
  shows "calls (snd (processObject p ext obj component w))
     = calls w @
         [CallGet (ObjectKeyFromObject (ToUnstructured obj)) (ToUnstructured obj) None,
          CallPatchApply live obj4 (Some applyErr),
          CallDelete obj5 (Some DeletePropagationBackground) deleteErr]
         @ (if deleteErr = None then [CallCreate (SetResourceVersion obj5 []) createErr] else [])
   \<and> GetResourceVersion (SetResourceVersion obj5 []) = []"
  using processObject_invalid_patch [OF kind pre get cp ap inv del cr] by simp

theorem processObject_invalid_patch_background_delete_witness:
  "calls (snd (processObject (exampleProcessor None None)
          exampleExternals (exampleDeployment [] ''selector: b'') ''pilot'' liveWorld))
     = [CallGet (''app'', ''web'') (ToUnstructured (exampleDeployment [] ''selector: b'')) None,
        CallPatchApply (exampleDeployment ''41'' ''selector: a'')
          (SetResourceVersion (addMetadata (exampleProcessor None None)
             (exampleDeployment [] ''selector: b'') ''pilot'') ''41'')
          (Some (Err StatusReasonInvalid ''field is immutable'')),
        CallDelete
          (SetResourceVersion (addMetadata (exampleProcessor None None)
             (exampleDeployment [] ''selector: b'') ''pilot'') ''41'')
          (Some DeletePropagationBackground) None,
        CallCreate
          (SetResourceVersion (addMetadata (exampleProcessor None None)
             (exampleDeployment [] ''selector: b'') ''pilot'') [])
          None]"
proof -
  let ?p = "exampleProcessor None None"
  let ?obj = "exampleDeployment [] ''selector: b''"
  let ?obj2 = "addMetadata ?p ?obj ''pilot''"
  let ?live = "exampleDeployment ''41'' ''selector: a''"
  let ?obj4 = "SetResourceVersion ?obj2 ''41''"
  let ?e = "Err StatusReasonInvalid ''field is immutable''"
  have kind: "GetKind ?obj \<noteq> ''List''"
    by (simp add: exampleDeployment_def GetKind_def)
  have pre: "preprocessObject ?p ?obj2 (cluster liveWorld) = (None, ?obj2, cluster liveWorld)"
    by (simp add: exampleProcessor_def)
  have get: "Get (Client ?p) (cluster liveWorld) (ObjectKeyFromObject (ToUnstructured ?obj))
      (ToUnstructured ?obj) = Inr ?live"
    by (simp add: eval_defs2)
  have cp: "PatchFactory ?p ?live (CreateApplyAnnotation exampleExternals ?obj2)
      = (Some rejectingPatch, None, ?obj4)"
    by (simp add: eval_defs2)
  have ap: "rejectingPatch ?obj4 (cluster liveWorld) = (Some ?e, ?obj4, cluster liveWorld)"
    by (simp add: rejectingPatch_def)
  have inv: "IsInvalid (Some ?e)"
    by (simp add: IsInvalid_def)
  have del: "Delete (Client ?p) (cluster liveWorld) ?obj4 (Some DeletePropagationBackground)
      = (None, [])"
    by (simp add: eval_defs2)
  have cr: "Create (Client ?p) [] (SetResourceVersion ?obj4 [])
      = (None, SetResourceVersion (SetResourceVersion ?obj4 []) ''1'',
         [SetResourceVersion (SetResourceVersion ?obj4 []) ''1''])"
    by (simp add: exampleProcessor_def fakeClient_def fakeCreate_def)
  have key: "ObjectKeyFromObject (ToUnstructured ?obj) = (''app'', ''web'')"
    by (simp add: eval_defs2)
  have rv: "SetResourceVersion ?obj4 [] = SetResourceVersion ?obj2 []"
    by (cases ?obj2) (simp add: SetResourceVersion_def)
  from processObject_invalid_patch_background_delete [OF kind pre get cp ap inv del cr]
  show ?thesis by (simp add: key rv liveWorld_def)
qed

text \<open>
  C3 as stated fails: the one deletion of the run is made with background propagation,
  not foreground.
\<close>

theorem processObject_foreground_delete_counterexample:
  "map snd (deleteCalls (calls (snd (processObject (exampleProcessor None None)
          exampleExternals (exampleDeployment [] ''selector: b'') ''pilot'' liveWorld))))
     = [Some DeletePropagationBackground]"
  by (simp add: eval_defs2)

text \<open>
  C7. The errors \<open>ProcessManifests\<close> returns are, counted with multiplicity, one error
  for each document that does not decode together with the errors of processing the
  documents that do decode, one after the other; the world it leaves is the one that
  processing all the decodable documents leaves, so a document that does not decode
  stops nothing. In particular, when exactly one document does not decode and the
  processing of the others returns no error, the result is the aggregate of that one
  error.
\<close>

theorem ProcessManifests_decode_failures:
  "mset (Errors (fst (ProcessManifests p ext manifests component w)))
     = mset (decodeFailures ext (documentsOf ext manifests))
       + mset (fst (processItems p ext (decodedObjects ext (documentsOf ext manifests)) component w))
   \<and> snd (ProcessManifests p ext manifests component w)
     = snd (processItems p ext (decodedObjects ext (documentsOf ext manifests)) component w)
   \<and> (length (decodeFailures ext (documentsOf ext manifests)) = 1
       \<and> fst (processItems p ext (decodedObjects ext (documentsOf ext manifests)) component w) = []
      \<longrightarrow> (\<exists>err. decodeFailures ext (documentsOf ext manifests) = [err]
             \<and> fst (ProcessManifests p ext manifests component w) = Some (Aggregate [err])))"
proof -
  obtain errs w' where pm: "processManifestList p ext component manifests ([], w) = (errs, w')"
    by (cases "processManifestList p ext component manifests ([], w)")
  note d = processManifestList_decoded [OF pm]
  have r: "ProcessManifests p ext manifests component w = (NewAggregate errs, w')"
    using pm by (simp add: ProcessManifests_def)
  have a: "mset (Errors (fst (ProcessManifests p ext manifests component w)))
     = mset (decodeFailures ext (documentsOf ext manifests))
       + mset (fst (processItems p ext (decodedObjects ext (documentsOf ext manifests)) component w))"
    using d r by simp
  have b: "snd (ProcessManifests p ext manifests component w)
     = snd (processItems p ext (decodedObjects ext (documentsOf ext manifests)) component w)"
    using d r by simp
  have c: "\<exists>err. decodeFailures ext (documentsOf ext manifests) = [err]
             \<and> fst (ProcessManifests p ext manifests component w) = Some (Aggregate [err])"
    if one: "length (decodeFailures ext (documentsOf ext manifests)) = 1"
      and none: "fst (processItems p ext (decodedObjects ext (documentsOf ext manifests)) component w) = []"
  proof -
    from one obtain err where e: "decodeFailures ext (documentsOf ext manifests) = [err]"
      by (cases "decodeFailures ext (documentsOf ext manifests)") auto
    with d none have "mset errs = {#err#}" by simp
    then have "errs = [err]" by (metis mset_single_iff_right)
    with r e show ?thesis by (simp add: NewAggregate_def)
  qed
  from a b c show ?thesis by blast
qed

theorem ProcessManifests_decode_failures_witness:
  "documentsOf exampleExternals exampleManifests = [''a'', ''b'', ''!'', ''c'', ''d'']
   \<and> fst (ProcessManifests (exampleProcessor None None) exampleExternals exampleManifests
        ''pilot'' emptyWorld)
     = Some (Aggregate [Err StatusReasonUnknown ''yaml: did not find expected key''])
   \<and> map GetName (createdObjects (calls (snd (ProcessManifests (exampleProcessor None None)
        exampleExternals exampleManifests ''pilot'' emptyWorld))))
     = [''a'', ''b'', ''c'', ''d'']"
proof -
  let ?p = "exampleProcessor None None"
  have docs: "documentsOf exampleExternals exampleManifests = [''a'', ''b'', ''!'', ''c'', ''d'']"
    by (simp add: documentsOf_def exampleManifests_def exampleExternals_def HasSuffix_def)
  have fails: "decodeFailures exampleExternals [''a'', ''b'', ''!'', ''c'', ''d'']
      = [Err StatusReasonUnknown ''yaml: did not find expected key'']"
    by (simp add: decodeDocument_def exampleExternals_def)
  have objs: "decodedObjects exampleExternals [''a'', ''b'', ''!'', ''c'', ''d'']
      = [configMap ''a'', configMap ''b'', configMap ''c'', configMap ''d'']"
    by (simp add: decodeDocument_def exampleExternals_def)
  have items: "fst (processItems ?p exampleExternals
        [configMap ''a'', configMap ''b'', configMap ''c'', configMap ''d''] ''pilot'' emptyWorld) = []"
    by (simp add: eval_defs2)
  have created: "map GetName (createdObjects (calls (snd (processItems ?p exampleExternals
        [configMap ''a'', configMap ''b'', configMap ''c'', configMap ''d''] ''pilot'' emptyWorld))))
      = [''a'', ''b'', ''c'', ''d'']"
    by (simp add: eval_defs2)
  from ProcessManifests_decode_failures [of ?p exampleExternals exampleManifests "''pilot''" emptyWorld]
  show ?thesis
    unfolding docs fails objs using items created by simp
qed

subsection \<open>The CRD installer\<close>

lemma updateCalls_append [simp]: "updateCalls (xs @ ys) = updateCalls xs @ updateCalls ys"
  by (induction xs rule: updateCalls.induct) simp_all

lemma Client_Update_calls:
  "Client_Update cl obj w = (err, obj', w1) \<Longrightarrow> calls w1 = calls w @ [CallUpdate obj err]"
  by (auto simp: Client_Update_def split: prod.splits)

lemma writeCRD_Update_calls:
  "\<exists>more. calls (snd (writeCRD ext (Client_Update cl) crd w)) = calls w @ CallUpdate crd (fst (Update cl (cluster w) crd)) # more"
proof -
  obtain err crd1 w1 where u: "Client_Update cl crd w = (err, crd1, w1)"
    by (cases "Client_Update cl crd w")
  have e: "err = fst (Update cl (cluster w) crd)"
    using u by (auto simp: Client_Update_def split: prod.splits)
  note c1 = Client_Update_calls [OF u]
  show ?thesis
  proof (cases "IsTypeObjectProblemInCRDSchemas err")
    case False
    with u c1 e show ?thesis by (simp add: writeCRD_def)
  next
    case True
    obtain removeErr crd2 where r: "RemoveTypeObjectFieldsFromCRDSchema ext crd1 = (removeErr, crd2)"
      by (cases "RemoveTypeObjectFieldsFromCRDSchema ext crd1")
    show ?thesis
    proof (cases removeErr)
      case (Some x)
      with True u r c1 e show ?thesis by (simp add: writeCRD_def)
    next
      case None
      obtain err' crd3 w2 where u2: "Client_Update cl crd2 w1 = (err', crd3, w2)"
        by (cases "Client_Update cl crd2 w1")
      from None True u r u2 have "snd (writeCRD ext (Client_Update cl) crd w) = w2"
        by (simp add: writeCRD_def)
      with Client_Update_calls [OF u2] c1 e show ?thesis by simp
    qed
  qed
qed

lemma Client_Get_simp:
  "Client_Get cl key receiver w
     = (Get cl (cluster w) key receiver,
        w\<lparr>calls := calls w @ [CallGet key receiver (errorOf (Get cl (cluster w) key receiver))]\<rparr>)"
  by (simp add: Client_Get_def Let_def)

lemma processCRDDocuments_decoded:
  "processCRDDocuments cl ext cext docs (errs, w) = (errs', w') \<Longrightarrow>
   mset errs' = mset errs + mset (decodeCRDFailures ext docs)
                 + mset (fst (createCRDs cl cext (decodedCRDs ext docs) w))
   \<and> w' = snd (createCRDs cl cext (decodedCRDs ext docs) w)"
proof (induction docs arbitrary: errs w)
  case Nil
  then show ?case by simp
next
  case (Cons raw docs)
  show ?case
  proof (cases "decodeCRD ext raw")
    case (Inl err)
    with Cons.prems have "processCRDDocuments cl ext cext docs (errs @ [err], w) = (errs', w')"
      by simp
    from Cons.IH [OF this] Inl show ?thesis by simp
  next
    case (Inr found)
    show ?thesis
    proof (cases found)
      case None
      with Inr Cons.prems have "processCRDDocuments cl ext cext docs (errs, w) = (errs', w')"
        by simp
      from Cons.IH [OF this] Inr None show ?thesis by simp
    next
      case (Some crd)
      obtain e w1 where cc: "createCRD cl cext crd w = (e, w1)"
        by (cases "createCRD cl cext crd w")
      from Cons.prems Inr Some cc
      have "processCRDDocuments cl ext cext docs
              (case e of None \<Rightarrow> errs | Some e' \<Rightarrow> errs @ [e'], w1) = (errs', w')"
        by simp
      from Cons.IH [OF this] Inr Some cc show ?thesis
        by (cases e) (simp_all add: Let_def split: prod.splits)
    qed
  qed
qed

lemma Walk_stops:
  "Walk fn before w = (None, w1) \<Longrightarrow> fn entry w1 = (Some err, w2) \<Longrightarrow>
   Walk fn (before @ entry # after) w = (Some err, w2)"
proof (induction before arbitrary: w)
  case Nil
  then show ?case by simp
next
  case (Cons b before)
  obtain e wb where fb: "fn b w = (e, wb)" by (cases "fn b w")
  with Cons.prems(1) have e: "e = None" and rest: "Walk fn before wb = (None, w1)"
    by (auto split: option.splits)
  from Cons.IH [OF rest Cons.prems(2)] fb e show ?case by simp
qed

lemmas eval_defs3 = eval_defs2 exampleCRD_def exampleCrdExternals_def crdFileExternals_def
  crdWorld_def createCRD_def newExistingCrd_def getMaistraVersion_def getPatchedCrd_def
  writeCRD_def decodeCRD_def processCRDFile_def installCRDRole_def walkFn_def InstallCRDs_def
  crdRole_def ClusterRoleGVK_def GroupKindString_def IsTypeObjectProblemInCRDSchemas_def
  HasPrefix_def Errorf_def

text \<open>
  C4, as the code has it. When a definition of the same name is installed:
  if the incoming definition's version label does not parse, \<open>createCRD\<close> returns an
  error and writes nothing; if it parses, \<open>createCRD\<close> issues an Update if and only if
  the installed label does not parse or is strictly less than the incoming version and
  \<open>getPatchedCrd\<close> yields a patched definition (without error), and the Update is made
  with that patched definition; if the installed version parses and is not less than
  the incoming one, \<open>createCRD\<close> returns nil after its one read and writes nothing.
\<close>

theorem createCRD_overwrites_only_older:
  assumes get: "Get cl (cluster w) ([], GetName crd) (newExistingCrd crd) = Inr existing"
  shows "(\<forall>err. getMaistraVersion ext crd = Inl err \<longrightarrow>
            createCRD cl ext crd w
              = (Some (Errorf (''Could not determine version of new CRD '' @ GetName crd
                                 @ '': '' @ Error err)),
                 w\<lparr>calls := calls w @ [CallGet ([], GetName crd) (newExistingCrd crd) None]\<rparr>))
    \<and> (\<forall>newVersion. getMaistraVersion ext crd = Inr newVersion \<longrightarrow>
          ((updateCalls (drop (length (calls w)) (calls (snd (createCRD cl ext crd w)))) \<noteq> [])
             = ((case getMaistraVersion ext existing of
                   Inl err \<Rightarrow> True | Inr v \<Rightarrow> LessThan ext v newVersion)
                \<and> (\<exists>patchedCrd. getPatchedCrd ext existing crd = (Some patchedCrd, None))))
        \<and> (\<forall>patchedCrd.
              (case getMaistraVersion ext existing of
                 Inl err \<Rightarrow> True | Inr v \<Rightarrow> LessThan ext v newVersion)
              \<and> getPatchedCrd ext existing crd = (Some patchedCrd, None) \<longrightarrow>
              createCRD cl ext crd w
                = writeCRD ext (Client_Update cl) patchedCrd
                    (w\<lparr>calls := calls w @ [CallGet ([], GetName crd) (newExistingCrd crd) None]\<rparr>)
              \<and> hd (updateCalls (drop (length (calls w)) (calls (snd (createCRD cl ext crd w)))))
                  = patchedCrd)
        \<and> (\<not> (case getMaistraVersion ext existing of
                   Inl err \<Rightarrow> True | Inr v \<Rightarrow> LessThan ext v newVersion) \<longrightarrow>
              createCRD cl ext crd w
                = (None, w\<lparr>calls := calls w @ [CallGet ([], GetName crd) (newExistingCrd crd) None]\<rparr>)))"
proof (intro conjI allI impI)
  let ?w1 = "w\<lparr>calls := calls w @ [CallGet ([], GetName crd) (newExistingCrd crd) None]\<rparr>"
  have g: "Client_Get cl ([], GetName crd) (newExistingCrd crd) w = (Inr existing, ?w1)"
    using get by (simp add: Client_Get_simp errorOf_def)
  let ?older = "\<lambda>newVersion. case getMaistraVersion ext existing of
                   Inl err \<Rightarrow> True | Inr v \<Rightarrow> LessThan ext v newVersion"
  have older_eq: "\<And>newVersion. (case (case getMaistraVersion ext existing of
                            Inl err \<Rightarrow> None | Inr v \<Rightarrow> Some v) of
                            None \<Rightarrow> True | Some v \<Rightarrow> LessThan ext v newVersion) = ?older newVersion"
    by (simp split: sum.splits)
  have unf: "\<And>newVersion. getMaistraVersion ext crd = Inr newVersion \<Longrightarrow>
     createCRD cl ext crd w =
       (if ?older newVersion
        then (case getPatchedCrd ext existing crd of
                (patchedCrd, Some err) \<Rightarrow> (Some err, ?w1)
              | (None, None) \<Rightarrow> (None, ?w1)
              | (Some patchedCrd, None) \<Rightarrow> writeCRD ext (Client_Update cl) patchedCrd ?w1)
        else (None, ?w1))"
    using g by (simp add: createCRD_def Let_def older_eq)
  {
    fix err assume "getMaistraVersion ext crd = Inl err"
    then show "createCRD cl ext crd w
              = (Some (Errorf (''Could not determine version of new CRD '' @ GetName crd
                                 @ '': '' @ Error err)), ?w1)"
      using g by (simp add: createCRD_def Let_def)
  }
  {
    fix newVersion assume nv: "getMaistraVersion ext crd = Inr newVersion"
    note u = unf [OF nv]
    show "(updateCalls (drop (length (calls w)) (calls (snd (createCRD cl ext crd w)))) \<noteq> [])
             = (?older newVersion
                \<and> (\<exists>patchedCrd. getPatchedCrd ext existing crd = (Some patchedCrd, None)))"
    proof (cases "?older newVersion")
      case False
      then show ?thesis using u by simp
    next
      case True
      obtain pc pe where gp: "getPatchedCrd ext existing crd = (pc, pe)"
        by (cases "getPatchedCrd ext existing crd")
      show ?thesis
      proof (cases pe)
        case (Some e)
        with True gp u show ?thesis by (cases pc) simp_all
      next
        case None
        show ?thesis
        proof (cases pc)
          case None
          with True gp u \<open>pe = None\<close> show ?thesis by simp
        next
          case (Some patchedCrd)
          from writeCRD_Update_calls [of ext cl patchedCrd ?w1] obtain more where
            "calls (snd (writeCRD ext (Client_Update cl) patchedCrd ?w1))
               = calls ?w1 @ CallUpdate patchedCrd (fst (Update cl (cluster ?w1) patchedCrd)) # more"
            by blast
          with True gp u Some \<open>pe = None\<close> show ?thesis by simp
        qed
      qed
    qed
  }
  {
    fix newVersion patchedCrd
    assume nv: "getMaistraVersion ext crd = Inr newVersion"
      and h: "?older newVersion \<and> getPatchedCrd ext existing crd = (Some patchedCrd, None)"
    note u = unf [OF nv]
    from h u show c: "createCRD cl ext crd w = writeCRD ext (Client_Update cl) patchedCrd ?w1"
      by simp
    from writeCRD_Update_calls [of ext cl patchedCrd ?w1] obtain more where
      "calls (snd (writeCRD ext (Client_Update cl) patchedCrd ?w1))
         = calls ?w1 @ CallUpdate patchedCrd (fst (Update cl (cluster ?w1) patchedCrd)) # more"
      by blast
    with c show "hd (updateCalls (drop (length (calls w)) (calls (snd (createCRD cl ext crd w)))))
                  = patchedCrd"
      by simp
  }
  {
    fix newVersion
    assume nv: "getMaistraVersion ext crd = Inr newVersion" and "\<not> ?older newVersion"
    with unf [OF nv] show "createCRD cl ext crd w = (None, ?w1)" by simp
  }
qed

theorem createCRD_overwrites_only_older_witness:
  "updateCalls (calls (snd (createCRD (fakeClient None None) exampleCrdExternals
       (exampleCRD ''x'' ''1.1.0'' ''schema v2'') (crdWorld ''1.0.0'')))) \<noteq> []
   \<and> hd (updateCalls (calls (snd (createCRD (fakeClient None None) exampleCrdExternals
       (exampleCRD ''x'' ''1.1.0'' ''schema v2'') (crdWorld ''1.0.0'')))))
     = SetResourceVersion (exampleCRD ''x'' ''1.1.0'' ''schema v2'') ''5''
   \<and> createCRD (fakeClient None None) exampleCrdExternals
       (exampleCRD ''x'' ''1.0.0'' ''schema v2'') (crdWorld ''1.0.0'')
     = (None, \<lparr>cluster = cluster (crdWorld ''1.0.0''),
               calls = [CallGet ([], ''x'') (newExistingCrd (exampleCRD ''x'' ''1.0.0'' ''schema v2''))
                          None]\<rparr>)"
proof -
  let ?cl = "fakeClient None None"
  let ?w = "crdWorld ''1.0.0''"
  let ?existing = "SetResourceVersion (exampleCRD ''x'' ''1.0.0'' ''schema v1'') ''5''"
  let ?newer = "exampleCRD ''x'' ''1.1.0'' ''schema v2''"
  let ?same = "exampleCRD ''x'' ''1.0.0'' ''schema v2''"
  have w: "calls ?w = []" by (simp add: crdWorld_def)
  have get1: "Get ?cl (cluster ?w) ([], GetName ?newer) (newExistingCrd ?newer) = Inr ?existing"
    by (simp add: eval_defs3)
  have get2: "Get ?cl (cluster ?w) ([], GetName ?same) (newExistingCrd ?same) = Inr ?existing"
    by (simp add: eval_defs3)
  have nv1: "getMaistraVersion exampleCrdExternals ?newer = Inr 110"
    by (simp add: eval_defs3)
  have nv2: "getMaistraVersion exampleCrdExternals ?same = Inr 100"
    by (simp add: eval_defs3)
  have ev: "getMaistraVersion exampleCrdExternals ?existing = Inr 100"
    by (simp add: eval_defs3)
  have lt: "LessThan exampleCrdExternals 100 110" "\<not> LessThan exampleCrdExternals 100 100"
    by (simp_all add: exampleCrdExternals_def)
  have gp: "getPatchedCrd exampleCrdExternals ?existing ?newer
      = (Some (SetResourceVersion ?newer ''5''), None)"
    by (simp add: eval_defs3)
  have n: "GetName ?same = ''x''"
    by (simp add: exampleCRD_def GetName_def)
  note t1 = createCRD_overwrites_only_older [OF get1, of exampleCrdExternals,
      THEN conjunct2, rule_format, OF nv1]
  note t2 = createCRD_overwrites_only_older [OF get2, of exampleCrdExternals,
      THEN conjunct2, rule_format, OF nv2]
  have a: "updateCalls (calls (snd (createCRD ?cl exampleCrdExternals ?newer ?w))) \<noteq> []"
    using t1 [THEN conjunct1] by (simp add: w ev lt gp)
  have prem: "(case getMaistraVersion exampleCrdExternals ?existing of
                 Inl err \<Rightarrow> True | Inr v \<Rightarrow> LessThan exampleCrdExternals v 110)
      \<and> getPatchedCrd exampleCrdExternals ?existing ?newer
          = (Some (SetResourceVersion ?newer ''5''), None)"
    by (simp add: ev lt gp)
  have b: "hd (updateCalls (calls (snd (createCRD ?cl exampleCrdExternals ?newer ?w))))
      = SetResourceVersion ?newer ''5''"
    using t1 [THEN conjunct2, THEN conjunct1, rule_format, OF prem, THEN conjunct2]
    by (simp add: w)
  have c: "createCRD ?cl exampleCrdExternals ?same ?w
      = (None, \<lparr>cluster = cluster ?w,
               calls = [CallGet ([], ''x'') (newExistingCrd ?same) None]\<rparr>)"
    using t2 [THEN conjunct2, THEN conjunct2] by (simp add: w ev lt n)
  from a b c show ?thesis by blast
qed

text \<open>
  C4 as stated fails: the installed definition has no version label (so it does not
  parse), the incoming one has none either, and \<open>createCRD\<close> returns an error after its
  read, without an Update.
\<close>

theorem createCRD_unparseable_existing_counterexample:
  "getMaistraVersion exampleCrdExternals
       (SetResourceVersion (exampleCRD ''x'' [] ''schema v1'') ''5'')
     = Inl (Err StatusReasonUnknown ''Invalid Semantic Version'')
   \<and> createCRD (fakeClient None None) exampleCrdExternals (exampleCRD ''x'' [] ''schema v2'')
         (crdWorld [])
     = (Some (Err StatusReasonUnknown
          ''Could not determine version of new CRD x: Invalid Semantic Version''),
        \<lparr>cluster = [SetResourceVersion (exampleCRD ''x'' [] ''schema v1'') ''5''],
         calls = [CallGet ([], ''x'') (newExistingCrd (exampleCRD ''x'' [] ''schema v2'')) None]\<rparr>)"
  by (simp add: eval_defs3)

text \<open>
  C2, as the code has it. The walk over the directory stops at the first file whose
  processing returns an error: \<open>InstallCRDs\<close> returns that error, in the world that file
  left, and neither the files after it nor the cluster role are touched. Within one
  file that can be read, the errors returned are one for each document that does not
  decode together with the errors of installing the definitions that do decode, one
  after the other: a document that fails stops no other document of its file.
\<close>

theorem InstallCRDs_stops_at_first_failing_file:
  assumes stat: "Stat cext (PathJoin cext (GetChartsDir cext version') ''istio-init/files'') = Inr True"
    and entries: "WalkEntries cext (PathJoin cext (GetChartsDir cext version') ''istio-init/files'')
        = before @ entry # after"
    and before: "Walk (walkFn cl ext cext) before w = (None, w1)"
    and failing: "walkFn cl ext cext entry w1 = (Some err, w2)"
  shows "InstallCRDs cl ext cext version' w = (Some err, w2)
    \<and> (\<forall>fileName buf w0. OpenFile cext fileName = None \<and> ReadFrom cext fileName = Inr buf \<longrightarrow>
          mset (Errors (fst (processCRDFile cl ext cext fileName w0)))
            = mset (decodeCRDFailures ext (SplitManifests ext buf))
              + mset (fst (createCRDs cl cext (decodedCRDs ext (SplitManifests ext buf)) w0))
          \<and> snd (processCRDFile cl ext cext fileName w0)
            = snd (createCRDs cl cext (decodedCRDs ext (SplitManifests ext buf)) w0))"
proof (intro conjI allI impI)
  show "InstallCRDs cl ext cext version' w = (Some err, w2)"
    using stat entries Walk_stops [OF before failing, of after]
    by (simp add: InstallCRDs_def Let_def)
next
  fix fileName buf w0
  assume h: "OpenFile cext fileName = None \<and> ReadFrom cext fileName = Inr buf"
  obtain errs w' where pd:
    "processCRDDocuments cl ext cext (SplitManifests ext buf) ([], w0) = (errs, w')"
    by (cases "processCRDDocuments cl ext cext (SplitManifests ext buf) ([], w0)")
  have r: "processCRDFile cl ext cext fileName w0 = (NewAggregate errs, w')"
    using h pd by (simp add: processCRDFile_def)
  from processCRDDocuments_decoded [OF pd] r
  show "mset (Errors (fst (processCRDFile cl ext cext fileName w0)))
            = mset (decodeCRDFailures ext (SplitManifests ext buf))
              + mset (fst (createCRDs cl cext (decodedCRDs ext (SplitManifests ext buf)) w0))"
    by simp
  from processCRDDocuments_decoded [OF pd] r
  show "snd (processCRDFile cl ext cext fileName w0)
            = snd (createCRDs cl cext (decodedCRDs ext (SplitManifests ext buf)) w0)"
    by simp
qed

theorem InstallCRDs_stops_at_first_failing_file_witness:
  "InstallCRDs (fakeClient None None) crdFileExternals exampleCrdExternals ''v2.1'' emptyWorld
     = (Some (Aggregate [Err StatusReasonUnknown ''yaml: did not find expected key'']),
        snd (createCRD (fakeClient None None) exampleCrdExternals
               (exampleCRD ''x'' ''1.1.0'' ''schema'') emptyWorld))
   \<and> mset (Errors (fst (processCRDFile (fakeClient None None) crdFileExternals
        exampleCrdExternals ''/charts/v2.1/istio-init/files/bad.yaml'' emptyWorld)))
     = {#Err StatusReasonUnknown ''yaml: did not find expected key''#}"
proof -
  let ?cl = "fakeClient None None"
  let ?root = "''/charts/v2.1/istio-init/files''"
  let ?dir = "\<lparr>EntryPath = ?root, EntryIsDir = True, EntryErr = None\<rparr>"
  let ?bad = "\<lparr>EntryPath = ?root @ ''/bad.yaml'', EntryIsDir = False, EntryErr = None\<rparr>"
  let ?good = "\<lparr>EntryPath = ?root @ ''/good.yaml'', EntryIsDir = False, EntryErr = None\<rparr>"
  let ?e = "Err StatusReasonUnknown ''yaml: did not find expected key''"
  have stat: "Stat exampleCrdExternals
      (PathJoin exampleCrdExternals (GetChartsDir exampleCrdExternals ''v2.1'') ''istio-init/files'')
      = Inr True"
    by (simp add: exampleCrdExternals_def)
  have entries: "WalkEntries exampleCrdExternals
      (PathJoin exampleCrdExternals (GetChartsDir exampleCrdExternals ''v2.1'') ''istio-init/files'')
        = [?dir] @ ?bad # [?good]"
    by (simp add: exampleCrdExternals_def)
  have before: "Walk (walkFn ?cl crdFileExternals exampleCrdExternals) [?dir] emptyWorld
      = (None, emptyWorld)"
    by (simp add: walkFn_def)
  have "fst (createCRD ?cl exampleCrdExternals (exampleCRD ''x'' ''1.1.0'' ''schema'') emptyWorld)
      = None"
    by (simp add: eval_defs3)
  then obtain w2 where
    cc: "createCRD ?cl exampleCrdExternals (exampleCRD ''x'' ''1.1.0'' ''schema'') emptyWorld
      = (None, w2)"
    by (cases "createCRD ?cl exampleCrdExternals (exampleCRD ''x'' ''1.1.0'' ''schema'') emptyWorld")
       simp
  have op: "OpenFile exampleCrdExternals (?root @ ''/bad.yaml'') = None
      \<and> ReadFrom exampleCrdExternals (?root @ ''/bad.yaml'') = Inr ''!x''"
    by (simp add: exampleCrdExternals_def HasSuffix_def)
  have docs: "SplitManifests crdFileExternals ''!x'' = [''!'', ''x'']"
    by (simp add: crdFileExternals_def)
  have d1: "decodeCRD crdFileExternals ''!'' = Inl ?e"
    by (simp add: crdFileExternals_def decodeCRD_def)
  have d2: "decodeCRD crdFileExternals ''x'' = Inr (Some (exampleCRD ''x'' ''1.1.0'' ''schema''))"
    by (simp add: crdFileExternals_def decodeCRD_def exampleCRD_def GroupKindString_def)
  have failing: "walkFn ?cl crdFileExternals exampleCrdExternals ?bad emptyWorld
      = (Some (Aggregate [?e]), w2)"
    using op by (simp add: walkFn_def processCRDFile_def docs d1 d2 cc NewAggregate_def)
  have fails: "decodeCRDFailures crdFileExternals (SplitManifests crdFileExternals ''!x'') = [?e]"
    by (simp add: docs d1 d2)
  have crds: "decodedCRDs crdFileExternals (SplitManifests crdFileExternals ''!x'')
      = [exampleCRD ''x'' ''1.1.0'' ''schema'']"
    by (simp add: docs d1 d2)
  have created: "fst (createCRDs ?cl exampleCrdExternals [exampleCRD ''x'' ''1.1.0'' ''schema''] emptyWorld) = []"
    by (simp add: cc)
  note t = InstallCRDs_stops_at_first_failing_file [OF stat entries before failing]
  from t [THEN conjunct1] t [THEN conjunct2, rule_format, OF op, of emptyWorld, THEN conjunct1]
  show ?thesis
    by (simp add: fails crds created cc)
qed

text \<open>
  C2 as stated fails: \<open>bad.yaml\<close> is visited before \<open>good.yaml\<close>, whose one document is a
  CRD that decodes; \<open>InstallCRDs\<close> returns the error of \<open>bad.yaml\<close> and the cluster
  holds \<open>x\<close> only: \<open>y\<close> was never installed.
\<close>

theorem InstallCRDs_continues_after_bad_file_counterexample:
  "map EntryPath (WalkEntries exampleCrdExternals ''/charts/v2.1/istio-init/files'')
     = [''/charts/v2.1/istio-init/files'', ''/charts/v2.1/istio-init/files/bad.yaml'',
        ''/charts/v2.1/istio-init/files/good.yaml'']
   \<and> decodedCRDs crdFileExternals (SplitManifests crdFileExternals ''y'')
     = [exampleCRD ''y'' ''1.1.0'' ''schema'']
   \<and> fst (InstallCRDs (fakeClient None None) crdFileExternals exampleCrdExternals ''v2.1'' emptyWorld)
     = Some (Aggregate [Err StatusReasonUnknown ''yaml: did not find expected key''])
   \<and> map GetName (cluster (snd (InstallCRDs (fakeClient None None) crdFileExternals
        exampleCrdExternals ''v2.1'' emptyWorld))) = [''x'']"
  by (simp add: eval_defs3)

subsection \<open>The namespace reconciler\<close>

text \<open>
  C6. When the namespace read from the cluster carries a member-of label naming a mesh
  namespace other than the reconciler's, \<open>reconcileNamespaceInMesh\<close> returns an error,
  leaves the cluster as it was and makes no call but the read of the namespace: no
  label is changed and nothing is created, updated or deleted.
\<close>

theorem reconcile_fails_for_member_of_other_mesh:
  assumes get: "Get (Client r) (cluster w) ([], namespace') (namespaceReceiver namespace')
        = Inr namespaceResource"
    and label: "map_of (GetLabels namespaceResource) MemberOfKey = Some otherMesh"
    and other: "otherMesh \<noteq> reconcilerMeshNamespace r"
  shows "fst (namespaceReconciler_reconcileNamespaceInMesh r namespace' w) \<noteq> None
    \<and> cluster (snd (namespaceReconciler_reconcileNamespaceInMesh r namespace' w)) = cluster w
    \<and> calls (snd (namespaceReconciler_reconcileNamespaceInMesh r namespace' w))
        = calls w @ [CallGet ([], namespace') (namespaceReceiver namespace') None]
    \<and> writtenNames (calls (snd (namespaceReconciler_reconcileNamespaceInMesh r namespace' w)))
        = writtenNames (calls w)"
  using assms
  by (simp add: namespaceReconciler_reconcileNamespaceInMesh_def Client_Get_simp errorOf_def)

theorem reconcile_fails_for_member_of_other_mesh_witness:
  "fst (namespaceReconciler_reconcileNamespaceInMesh exampleReconciler ''app-namespace''
          \<lparr>cluster = [appNamespace [(MemberOfKey, ''other-control-plane'')]], calls = []\<rparr>)
     \<noteq> None
   \<and> cluster (snd (namespaceReconciler_reconcileNamespaceInMesh exampleReconciler ''app-namespace''
          \<lparr>cluster = [appNamespace [(MemberOfKey, ''other-control-plane'')]], calls = []\<rparr>))
     = [appNamespace [(MemberOfKey, ''other-control-plane'')]]
   \<and> writtenNames (calls (snd (namespaceReconciler_reconcileNamespaceInMesh exampleReconciler
          ''app-namespace''
          \<lparr>cluster = [appNamespace [(MemberOfKey, ''other-control-plane'')]], calls = []\<rparr>)))
     = []"
proof -
  let ?ns = "appNamespace [(MemberOfKey, ''other-control-plane'')]"
  let ?w = "\<lparr>cluster = [?ns], calls = []\<rparr>"
  have get: "Get (Client exampleReconciler) (cluster ?w) ([], ''app-namespace'')
        (namespaceReceiver ''app-namespace'') = Inr ?ns"
    by (simp add: exampleReconciler_def fakeClient_def fakeGet_def appNamespace_def
        namespaceReceiver_def GetNamespace_def GetName_def)
  have label: "map_of (GetLabels ?ns) MemberOfKey = Some ''other-control-plane''"
    by (simp add: appNamespace_def GetLabels_def)
  have other: "''other-control-plane'' \<noteq> reconcilerMeshNamespace exampleReconciler"
    by (simp add: exampleReconciler_def)
  from reconcile_fails_for_member_of_other_mesh [OF get label other]
  show ?thesis by simp
qed

end
